theory Spec2Isabelle
  imports Complex_Main "HOL-Library.AList" "HOL-Library.Sublist"
begin

section \<open>The API client (frontend/src/lib/api.ts)\<close>

text \<open>
  The browser's \<open>localStorage\<close> is a map from keys to strings; \<open>getItem\<close> of a
  missing key is \<open>null\<close> (here \<open>None\<close>). A request is what \<open>fetch\<close> is called
  with. A response offers \<open>ok\<close>, \<open>text()\<close> and \<open>json()\<close>; \<open>json()\<close> rejects
  with a SyntaxError when the body is not JSON (here \<open>body_json = None\<close>). The network is
  a function from requests to responses, \<open>None\<close> when \<open>fetch\<close> itself rejects. Every
  request handed to \<open>fetch\<close> is appended to \<open>sent\<close>, so that "the request is issued"
  is a fact about the state.

  A stored session id is a JavaScript string, a list of UTF-16 code units. What matters of
  a code unit is whether it fits a byte: \<open>Byte c\<close> is a code unit up to \<open>0xFF\<close>,
  \<open>Wide k\<close> any code unit above. Header names and values are byte strings.
\<close>

datatype code_unit = Byte char | Wide nat

type_synonym jsstring = "code_unit list"

type_synonym storage = "string \<rightharpoonup> jsstring"

datatype http_method = GET | POST | DELETE

datatype 'f body = NoBody | FormData 'f | JsonBody string

record 'f request =
  url :: string
  meth :: http_method
  headers :: "string \<rightharpoonup> string"
  body :: "'f body"

record 'j response =
  ok :: bool
  body_text :: string
  body_json :: "'j option"

record 'f world =
  storage :: storage
  sent :: "'f request list"

text \<open>\<open>Error msg\<close> is \<open>new Error(msg)\<close> thrown by the client; \<open>HeaderTypeError\<close> is
  the TypeError of \<open>Headers.set\<close>; \<open>NetworkFailure\<close> is the rejection of \<open>fetch\<close>;
  \<open>JsonSyntaxError\<close> is the rejection of \<open>res.json()\<close>.\<close>

datatype error = Error string | HeaderTypeError | NetworkFailure | JsonSyntaxError

record UploadResponse =
  session_id :: jsstring
  num_rows :: nat
  columns :: "string list"
  cohorts :: "string list"
  date_min :: "string option"
  date_max :: "string option"
  metrics :: "string list"

definition getSessionId :: "storage \<Rightarrow> jsstring option" where
  "getSessionId st = st ''session_id''"

definition setSessionId :: "jsstring \<Rightarrow> storage \<Rightarrow> storage" where
  "setSessionId ident st = st(''session_id'' \<mapsto> ident)"

definition removeSessionId :: "storage \<Rightarrow> storage" where
  "removeSessionId st = st(''session_id'' := None)"

subsection \<open>\<open>Headers.set\<close>\<close>

text \<open>
  \<open>h.set(name, value)\<close> of the Fetch standard, for a valid header name and a
  \<open>Headers\<close> object made by \<open>new Headers()\<close> (no guard). The value is converted to a
  byte string, which throws a TypeError when a code unit is above \<open>0xFF\<close>; it is then
  normalised, by removing the leading and trailing HTTP whitespace bytes (line feed,
  carriage return, tab, space); the result must be a header value, else a TypeError is
  thrown: no leading or trailing tab or space, and no NUL, line feed or carriage return
  anywhere. Then the entry is set. The two names the client sets, \<open>x-session-id\<close> and
  \<open>Content-Type\<close>, are valid header names; names are kept as they are written, the
  case-insensitive matching of names is not modelled.
\<close>

fun to_ByteString :: "jsstring \<Rightarrow> string option" where
  "to_ByteString [] = Some []"
| "to_ByteString (Byte c # cs) = map_option ((#) c) (to_ByteString cs)"
| "to_ByteString (Wide k # cs) = None"

definition http_whitespace :: "char \<Rightarrow> bool" where
  "http_whitespace c = (c = CHR 0x0A \<or> c = CHR 0x0D \<or> c = CHR 0x09 \<or> c = CHR 0x20)"

definition http_tab_or_space :: "char \<Rightarrow> bool" where
  "http_tab_or_space c = (c = CHR 0x09 \<or> c = CHR 0x20)"

definition normalize_value :: "string \<Rightarrow> string" where
  "normalize_value v =
     rev (dropWhile http_whitespace (rev (dropWhile http_whitespace v)))"

definition is_header_value :: "string \<Rightarrow> bool" where
  "is_header_value v =
     (\<not> (v \<noteq> [] \<and> (http_tab_or_space (hd v) \<or> http_tab_or_space (last v)))
      \<and> CHR 0x00 \<notin> set v \<and> CHR 0x0A \<notin> set v \<and> CHR 0x0D \<notin> set v)"

definition Headers_set ::
  "string \<Rightarrow> jsstring \<Rightarrow> (string \<rightharpoonup> string) \<Rightarrow> error + (string \<rightharpoonup> string)" where
  "Headers_set header_name v h =
     (case to_ByteString v of
        None \<Rightarrow> Inl HeaderTypeError
      | Some bytes \<Rightarrow>
          let normalized = normalize_value bytes
          in if is_header_value normalized then Inr (h(header_name \<mapsto> normalized))
             else Inl HeaderTypeError)"

subsection \<open>The client\<close>

text \<open>\<open>if (session) h.set('x-session-id', session)\<close>: a string is truthy when it is
  neither \<open>null\<close> nor empty. The TypeError of \<open>h.set\<close> leaves \<open>sessionHeaders\<close>.\<close>

definition sessionHeaders :: "storage \<Rightarrow> error + (string \<rightharpoonup> string)" where
  "sessionHeaders st =
     (case getSessionId st of
        None \<Rightarrow> Inr Map.empty
      | Some session \<Rightarrow>
          if session = [] then Inr Map.empty
          else Headers_set ''x-session-id'' session Map.empty)"

text \<open>\<open>headers.set('Content-Type', 'application/json')\<close>: the constant is a header
  value that normalisation leaves as it is (lemma \<open>set_content_type\<close> below), so the call
  is the update of the map.\<close>

definition json_content_type :: "(string \<rightharpoonup> string) \<Rightarrow> (string \<rightharpoonup> string)" where
  "json_content_type h = h(''Content-Type'' \<mapsto> ''application/json'')"

definition fetch_call ::
  "('f request \<Rightarrow> 'j response option) \<Rightarrow> 'f request \<Rightarrow> 'f world
     \<Rightarrow> 'j response option \<times> 'f world" where
  "fetch_call net req w = (net req, w\<lparr>sent := sent w @ [req]\<rparr>)"

text \<open>
  For each operation, \<open>op_request\<close> is the argument of its \<open>fetch\<close>. The operations that
  call \<open>sessionHeaders\<close> do so before \<open>fetch\<close>, while building that argument: when it
  throws, the operation throws and \<open>fetch\<close> is not called.
\<close>

definition uploadCsv_request :: "string \<Rightarrow> 'f \<Rightarrow> 'f request" where
  "uploadCsv_request base file =
     \<lparr>url = base @ ''/upload'', meth = POST, headers = Map.empty, body = FormData file\<rparr>"

definition uploadCsv ::
  "string \<Rightarrow> ('f request \<Rightarrow> UploadResponse response option) \<Rightarrow> 'f \<Rightarrow> 'f world
     \<Rightarrow> (error + UploadResponse) \<times> 'f world" where
  "uploadCsv base net file w =
     (case fetch_call net (uploadCsv_request base file) w of
        (None, w1) \<Rightarrow> (Inl NetworkFailure, w1)
      | (Some res, w1) \<Rightarrow>
          if \<not> ok res then (Inl (Error (body_text res)), w1)
          else (case body_json res of
                  None \<Rightarrow> (Inl JsonSyntaxError, w1)
                | Some data \<Rightarrow>
                    (Inr data, w1\<lparr>storage := setSessionId (session_id data) (storage w1)\<rparr>)))"

definition getMeta_request :: "string \<Rightarrow> storage \<Rightarrow> error + 'f request" where
  "getMeta_request base st =
     (case sessionHeaders st of
        Inl e \<Rightarrow> Inl e
      | Inr h \<Rightarrow> Inr \<lparr>url = base @ ''/meta'', meth = GET, headers = h, body = NoBody\<rparr>)"

definition getMeta ::
  "string \<Rightarrow> ('f request \<Rightarrow> 'j response option) \<Rightarrow> 'f world \<Rightarrow> (error + 'j) \<times> 'f world" where
  "getMeta base net w =
     (case getMeta_request base (storage w) of
        Inl e \<Rightarrow> (Inl e, w)
      | Inr req \<Rightarrow>
          (case fetch_call net req w of
             (None, w1) \<Rightarrow> (Inl NetworkFailure, w1)
           | (Some res, w1) \<Rightarrow>
               if \<not> ok res then (Inl (Error (body_text res)), w1)
               else (case body_json res of
                       None \<Rightarrow> (Inl JsonSyntaxError, w1)
                     | Some data \<Rightarrow> (Inr data, w1))))"

definition fetchMetrics_request :: "string \<Rightarrow> storage \<Rightarrow> string \<Rightarrow> error + 'f request" where
  "fetchMetrics_request base st payload_json =
     (case sessionHeaders st of
        Inl e \<Rightarrow> Inl e
      | Inr h \<Rightarrow> Inr \<lparr>url = base @ ''/metrics'', meth = POST, headers = json_content_type h,
                     body = JsonBody payload_json\<rparr>)"

definition fetchMetrics ::
  "string \<Rightarrow> ('f request \<Rightarrow> 'j response option) \<Rightarrow> ('p \<Rightarrow> string) \<Rightarrow> 'p \<Rightarrow> 'f world
     \<Rightarrow> (error + 'j) \<times> 'f world" where
  "fetchMetrics base net stringify payload w =
     (case fetchMetrics_request base (storage w) (stringify payload) of
        Inl e \<Rightarrow> (Inl e, w)
      | Inr req \<Rightarrow>
          (case fetch_call net req w of
             (None, w1) \<Rightarrow> (Inl NetworkFailure, w1)
           | (Some res, w1) \<Rightarrow>
               if \<not> ok res then (Inl (Error (body_text res)), w1)
               else (case body_json res of
                       None \<Rightarrow> (Inl JsonSyntaxError, w1)
                     | Some data \<Rightarrow> (Inr data, w1))))"

definition fetchFunnel_request :: "string \<Rightarrow> storage \<Rightarrow> string \<Rightarrow> error + 'f request" where
  "fetchFunnel_request base st payload_json =
     (case sessionHeaders st of
        Inl e \<Rightarrow> Inl e
      | Inr h \<Rightarrow> Inr \<lparr>url = base @ ''/funnel'', meth = POST, headers = json_content_type h,
                     body = JsonBody payload_json\<rparr>)"

definition fetchFunnel ::
  "string \<Rightarrow> ('f request \<Rightarrow> 'j response option) \<Rightarrow> ('p \<Rightarrow> string) \<Rightarrow> 'p \<Rightarrow> 'f world
     \<Rightarrow> (error + 'j) \<times> 'f world" where
  "fetchFunnel base net stringify payload w =
     (case fetchFunnel_request base (storage w) (stringify payload) of
        Inl e \<Rightarrow> (Inl e, w)
      | Inr req \<Rightarrow>
          (case fetch_call net req w of
             (None, w1) \<Rightarrow> (Inl NetworkFailure, w1)
           | (Some res, w1) \<Rightarrow>
               if \<not> ok res then (Inl (Error (body_text res)), w1)
               else (case body_json res of
                       None \<Rightarrow> (Inl JsonSyntaxError, w1)
                     | Some data \<Rightarrow> (Inr data, w1))))"

definition clearSession_request :: "string \<Rightarrow> storage \<Rightarrow> error + 'f request" where
  "clearSession_request base st =
     (case sessionHeaders st of
        Inl e \<Rightarrow> Inl e
      | Inr h \<Rightarrow> Inr \<lparr>url = base @ ''/session'', meth = DELETE, headers = h, body = NoBody\<rparr>)"

definition clearSession ::
  "string \<Rightarrow> ('f request \<Rightarrow> 'j response option) \<Rightarrow> 'f world \<Rightarrow> (error + unit) \<times> 'f world" where
  "clearSession base net w =
     (case clearSession_request base (storage w) of
        Inl e \<Rightarrow> (Inl e, w)
      | Inr req \<Rightarrow>
          (case fetch_call net req w of
             (None, w1) \<Rightarrow> (Inl NetworkFailure, w1)
           | (Some res, w1) \<Rightarrow>
               if \<not> ok res then (Inl (Error (body_text res)), w1)
               else (Inr (), w1\<lparr>storage := removeSessionId (storage w1)\<rparr>)))"

definition fetchCohortAggregation_request :: "string \<Rightarrow> storage \<Rightarrow> error + 'f request" where
  "fetchCohortAggregation_request base st =
     (case sessionHeaders st of
        Inl e \<Rightarrow> Inl e
      | Inr h \<Rightarrow> Inr \<lparr>url = base @ ''/cohort-aggregation'', meth = GET, headers = h,
                     body = NoBody\<rparr>)"

definition fetchCohortAggregation ::
  "string \<Rightarrow> ('f request \<Rightarrow> 'j response option) \<Rightarrow> 'f world \<Rightarrow> (error + 'j) \<times> 'f world" where
  "fetchCohortAggregation base net w =
     (case fetchCohortAggregation_request base (storage w) of
        Inl e \<Rightarrow> (Inl e, w)
      | Inr req \<Rightarrow>
          (case fetch_call net req w of
             (None, w1) \<Rightarrow> (Inl NetworkFailure, w1)
           | (Some res, w1) \<Rightarrow>
               if \<not> ok res then (Inl (Error (body_text res)), w1)
               else (case body_json res of
                       None \<Rightarrow> (Inl JsonSyntaxError, w1)
                     | Some data \<Rightarrow> (Inr data, w1))))"

definition runStatisticalTest_request :: "string \<Rightarrow> storage \<Rightarrow> string \<Rightarrow> error + 'f request" where
  "runStatisticalTest_request base st req_json =
     (case sessionHeaders st of
        Inl e \<Rightarrow> Inl e
      | Inr h \<Rightarrow> Inr \<lparr>url = base @ ''/statistical-test'', meth = POST,
                     headers = json_content_type h, body = JsonBody req_json\<rparr>)"

text \<open>\<open>throw new Error(error || 'Statistical test failed')\<close>: the empty string is
  falsy, so an empty body gives the fallback message.\<close>

definition runStatisticalTest ::
  "string \<Rightarrow> ('f request \<Rightarrow> 'j response option) \<Rightarrow> ('p \<Rightarrow> string) \<Rightarrow> 'p \<Rightarrow> 'f world
     \<Rightarrow> (error + 'j) \<times> 'f world" where
  "runStatisticalTest base net stringify req w =
     (case runStatisticalTest_request base (storage w) (stringify req) of
        Inl e \<Rightarrow> (Inl e, w)
      | Inr request \<Rightarrow>
          (case fetch_call net request w of
             (None, w1) \<Rightarrow> (Inl NetworkFailure, w1)
           | (Some res, w1) \<Rightarrow>
               if \<not> ok res then
                 (let err = body_text res
                  in (Inl (Error (if err = [] then ''Statistical test failed'' else err)), w1))
               else (case body_json res of
                       None \<Rightarrow> (Inl JsonSyntaxError, w1)
                     | Some data \<Rightarrow> (Inr data, w1))))"

section \<open>Numbers\<close>

text \<open>
  A JavaScript number is modelled as a real number or \<open>NaN\<close>; the rounding of IEEE
  doubles and the two infinities are not modelled.
\<close>

datatype number = NaN | Num real

fun num_times :: "number \<Rightarrow> real \<Rightarrow> number" where
  "num_times NaN k = NaN"
| "num_times (Num r) k = Num (r * k)"

text \<open>\<open>v < k\<close> on numbers: every comparison with \<open>NaN\<close> is false.\<close>

fun num_less :: "number \<Rightarrow> real \<Rightarrow> bool" where
  "num_less NaN k = False"
| "num_less (Num r) k = (r < k)"

section \<open>Series handed to the statistical tests (App.tsx, StatisticalTests.tsx)\<close>

record FunnelPoint =
  date :: string
  cohort :: string
  metric :: string
  fvalue :: number

record FunnelResponse =
  metrics_available :: "string list"
  pre_series :: "FunnelPoint list"
  post_series :: "FunnelPoint list"

record SeriesPoint =
  sp_date :: string
  sp_cohort :: string
  sp_value :: number

record FiltersState =
  test_cohort :: "string option"
  control_cohort :: "string option"

record extracted =
  preTest :: "number list"
  postTest :: "number list"
  preControl :: "number list"
  postControl :: "number list"

text \<open>\<open>d.cohort === testCohort\<close>, where \<open>testCohort\<close> may be \<open>undefined\<close>: strict
  equality of a string with \<open>undefined\<close> is false.\<close>

definition extractData ::
  "SeriesPoint list \<Rightarrow> SeriesPoint list \<Rightarrow> string option \<Rightarrow> string option \<Rightarrow> extracted" where
  "extractData preData postData testCohort controlCohort =
     \<lparr>preTest = map sp_value (filter (\<lambda>d. Some (sp_cohort d) = testCohort) preData),
      postTest = map sp_value (filter (\<lambda>d. Some (sp_cohort d) = testCohort) postData),
      preControl = map sp_value (filter (\<lambda>d. Some (sp_cohort d) = controlCohort) preData),
      postControl = map sp_value (filter (\<lambda>d. Some (sp_cohort d) = controlCohort) postData)\<rparr>"

text \<open>\<open>filters.test_cohort ? `TEST: ${filters.test_cohort}` : undefined\<close>: the label is
  undefined when the cohort is undefined or the empty string.\<close>

definition testLabel :: "FiltersState \<Rightarrow> string option" where
  "testLabel filters =
     (case test_cohort filters of
        None \<Rightarrow> None
      | Some c \<Rightarrow> if c = [] then None else Some (''TEST: '' @ c))"

definition controlLabel :: "FiltersState \<Rightarrow> string option" where
  "controlLabel filters =
     (case control_cohort filters of
        None \<Rightarrow> None
      | Some c \<Rightarrow> if c = [] then None else Some (''CONTROL: '' @ c))"

definition to_series_point :: "FunnelPoint \<Rightarrow> SeriesPoint" where
  "to_series_point p = \<lparr>sp_date = date p, sp_cohort = cohort p, sp_value = fvalue p\<rparr>"

text \<open>The props the App component passes to \<open>StatisticalTests\<close> for one funnel, and the
  samples \<open>extractData\<close> builds from them.\<close>

definition App_extractData :: "FunnelResponse \<Rightarrow> FiltersState \<Rightarrow> extracted" where
  "App_extractData funnel filters =
     extractData (map to_series_point (pre_series funnel))
       (map to_series_point (post_series funnel)) (testLabel filters) (controlLabel filters)"

section \<open>Summary statistics (calculateSummaryStats in App.tsx)\<close>

record stats =
  mean :: real
  median :: real
  p25 :: real
  p75 :: real
  std :: real
  count :: nat

text \<open>\<open>calculateStats\<close> receives the values left by \<open>.filter(v => !isNaN(v))\<close>, so
  its argument holds no \<open>NaN\<close> and is a list of reals. All its indexed reads are within
  the array (proved below).\<close>

definition calculateStats :: "real list \<Rightarrow> stats" where
  "calculateStats data =
     (if length data = 0 then
        \<lparr>mean = 0, median = 0, p25 = 0, p75 = 0, std = 0, count = 0\<rparr>
      else
        let sorted = sort data;
            mean = foldl (\<lambda>sum v. sum + v) 0 data / real (length data);
            median = (if length sorted mod 2 = 0
                      then (sorted ! (length sorted div 2 - 1) + sorted ! (length sorted div 2)) / 2
                      else sorted ! nat \<lfloor>real (length sorted) / 2\<rfloor>);
            p25Index = nat \<lfloor>real (length sorted) * 0.25\<rfloor>;
            p75Index = nat \<lfloor>real (length sorted) * 0.75\<rfloor>;
            p25 = sorted ! p25Index;
            p75 = sorted ! p75Index;
            variance = foldl (\<lambda>sum v. sum + (v - mean)\<^sup>2) 0 data / real (length data);
            std = sqrt variance
        in \<lparr>mean = mean, median = median, p25 = p25, p75 = p75, std = std,
            count = length data\<rparr>)"

text \<open>\<open>s.includes(sub)\<close>: \<open>sub\<close> occurs in \<open>s\<close> as a contiguous substring.\<close>

definition str_includes :: "string \<Rightarrow> string \<Rightarrow> bool" where
  "str_includes s sub = sublist sub s"

text \<open>\<open>.filter(v => !isNaN(v))\<close>\<close>

fun not_NaN_values :: "number list \<Rightarrow> real list" where
  "not_NaN_values [] = []"
| "not_NaN_values (NaN # vs) = not_NaN_values vs"
| "not_NaN_values (Num r # vs) = r # not_NaN_values vs"

definition test_values :: "FunnelPoint list \<Rightarrow> real list" where
  "test_values series =
     not_NaN_values (map fvalue
       (filter (\<lambda>p. str_includes (cohort p) ''TEST'' \<or> str_includes (cohort p) ''test'') series))"

definition control_values :: "FunnelPoint list \<Rightarrow> real list" where
  "control_values series =
     not_NaN_values (map fvalue
       (filter (\<lambda>p. str_includes (cohort p) ''CONTROL'' \<or> str_includes (cohort p) ''control'') series))"

definition calculateSummaryStats :: "FunnelResponse \<Rightarrow> string \<Rightarrow> (string \<times> stats) list" where
  "calculateSummaryStats funnel unused_metric =
     (let preTestStats = calculateStats (test_values (pre_series funnel));
          postTestStats = calculateStats (test_values (post_series funnel));
          preControlStats = calculateStats (control_values (pre_series funnel));
          postControlStats = calculateStats (control_values (post_series funnel))
      in [(''Pre Test'', preTestStats), (''Post Test'', postTestStats),
          (''Pre Control'', preControlStats), (''Post Control'', postControlStats)])"

section \<open>The result view of StatisticalTests.tsx\<close>

text \<open>An optional field of a JSON object read by the view: absent (\<open>undefined\<close>),
  \<open>null\<close>, or a value. \<open>summary\<close>, \<open>test_name\<close> and \<open>category\<close> are not optional
  in \<open>StatTestResult\<close>.\<close>

datatype 'a field = Undefined | Null | Present 'a

record StatTestResult =
  test_name :: string
  category :: string
  statistic :: "number field"
  p_value :: "number field"
  effect_size :: "number field"
  confidence_interval :: "number field list field"
  sample_size :: "number field"
  stat_power :: "number field"
  summary :: string
  parameters_used :: "(string \<times> string) list"

text \<open>What a table cell shows: literal text, \<open>r.toFixed(d)\<close>, a number printed as it
  is, the bracketed pair of the interval, a cell followed by a percent sign, and the
  p-value cell with its highlight flag.\<close>

datatype cell =
  Text string
| Fixed real nat
| Raw number
| Interval cell cell
| Percent cell
| PValue bool cell

record result_view =
  title :: string
  subtitle :: string
  badge :: nat
  rows :: "(string \<times> cell) list"
  interpretation_text :: string
  parameters_shown :: bool

fun safeToFixed :: "number field \<Rightarrow> nat \<Rightarrow> cell" where
  "safeToFixed Undefined decimals = Text ''N/A''"
| "safeToFixed Null decimals = Text ''N/A''"
| "safeToFixed (Present NaN) decimals = Text ''N/A''"
| "safeToFixed (Present (Num r)) decimals = Fixed r decimals"

text \<open>\<open>x !== undefined && x !== null\<close>\<close>

fun is_present :: "'a field \<Rightarrow> bool" where
  "is_present Undefined = False"
| "is_present Null = False"
| "is_present (Present v) = True"

fun statistic_row :: "number field \<Rightarrow> (string \<times> cell) list" where
  "statistic_row (Present v) = [(''Test Statistic'', safeToFixed (Present v) 4)]"
| "statistic_row _ = []"

fun p_value_row :: "number field \<Rightarrow> (string \<times> cell) list" where
  "p_value_row (Present v) =
     [(''P-value'', PValue (num_less v 0.05)
                      (if num_less v 0.001 then Text ''< 0.001'' else safeToFixed (Present v) 4))]"
| "p_value_row _ = []"

fun effect_size_row :: "number field \<Rightarrow> (string \<times> cell) list" where
  "effect_size_row (Present v) = [(''Effect Size'', safeToFixed (Present v) 4)]"
| "effect_size_row _ = []"

text \<open>\<open>result.confidence_interval && result.confidence_interval.length === 2\<close>: an
  array is truthy, \<open>null\<close> and \<open>undefined\<close> are not.\<close>

fun confidence_interval_row :: "number field list field \<Rightarrow> (string \<times> cell) list" where
  "confidence_interval_row (Present ci) =
     (if length ci = 2
      then [(''95% CI'', Interval (safeToFixed (ci ! 0) 4) (safeToFixed (ci ! 1) 4))]
      else [])"
| "confidence_interval_row _ = []"

fun sample_size_row :: "number field \<Rightarrow> (string \<times> cell) list" where
  "sample_size_row (Present v) = [(''Required Sample Size'', Raw v)]"
| "sample_size_row _ = []"

fun power_row :: "number field \<Rightarrow> (string \<times> cell) list" where
  "power_row (Present v) =
     [(''Statistical Power'', Percent (safeToFixed (Present (num_times v 100)) 1))]"
| "power_row _ = []"

definition render_result :: "nat \<Rightarrow> StatTestResult \<Rightarrow> result_view" where
  "render_result index result =
     \<lparr>title = test_name result,
      subtitle = category result,
      badge = index + 1,
      rows = statistic_row (statistic result) @ p_value_row (p_value result)
             @ effect_size_row (effect_size result)
             @ confidence_interval_row (confidence_interval result)
             @ sample_size_row (sample_size result) @ power_row (stat_power result),
      interpretation_text = summary result,
      parameters_shown = (length (map fst (parameters_used result)) > 0)\<rparr>"

text \<open>\<open>results.length > 0 && results.map((result, index) => ...)\<close>\<close>

definition render_results :: "StatTestResult list \<Rightarrow> result_view list" where
  "render_results results = map (\<lambda>(index, result). render_result index result) (enumerate 0 results)"

section \<open>Parameter controls of StatisticalTests.tsx\<close>

text \<open>The numeric parameters of the catalogue \<open>TEST_CATEGORIES\<close> and their defaults. The
  state \<open>parameters\<close> maps parameter names to numbers for a test with numeric parameters;
  \<open>NaN\<close> is never stored (the change handler ignores it), so stored values are reals.\<close>

record param =
  name :: string
  label :: string
  default :: real

definition effect_size_param :: param where
  "effect_size_param = \<lparr>name = ''effect_size'', label = ''Expected Effect Size'', default = 0.5\<rparr>"

definition alpha_param :: param where
  "alpha_param = \<lparr>name = ''alpha'', label = ''Significance Level'', default = 0.05\<rparr>"

definition power_param :: param where
  "power_param = \<lparr>name = ''power'', label = ''Desired Power'', default = 0.8\<rparr>"

definition nobs1_param :: param where
  "nobs1_param = \<lparr>name = ''nobs1'', label = ''Sample Size Group 1'', default = 50\<rparr>"

definition confidence_param :: param where
  "confidence_param = \<lparr>name = ''confidence'', label = ''Confidence Level'', default = 0.95\<rparr>"

definition n_bootstrap_param :: param where
  "n_bootstrap_param = \<lparr>name = ''n_bootstrap'', label = ''Bootstrap Samples'', default = 1000\<rparr>"

definition paired_t_test_power_parameters :: "param list" where
  "paired_t_test_power_parameters = [effect_size_param, alpha_param, power_param]"

definition independent_t_test_power_parameters :: "param list" where
  "independent_t_test_power_parameters = [effect_size_param, alpha_param, nobs1_param]"

definition paired_mean_difference_ci_parameters :: "param list" where
  "paired_mean_difference_ci_parameters = [confidence_param]"

definition bootstrap_ci_parameters :: "param list" where
  "bootstrap_ci_parameters = [confidence_param, n_bootstrap_param]"

text \<open>Selecting a test initialises the parameters with the defaults.\<close>

definition defaultParams :: "param list \<Rightarrow> (string \<rightharpoonup> real)" where
  "defaultParams ps = fold (\<lambda>p m. m(name p \<mapsto> default p)) ps Map.empty"

text \<open>\<open>parameters[param.name] || param.default || 0\<close>: a number is falsy when it is 0,
  and a missing key reads as \<open>undefined\<close>, which is falsy too.\<close>

definition currentValue :: "(string \<rightharpoonup> real) \<Rightarrow> param \<Rightarrow> real" where
  "currentValue parameters p =
     (case parameters (name p) of
        Some v \<Rightarrow> if v \<noteq> 0 then v else if default p \<noteq> 0 then default p else 0
      | None \<Rightarrow> if default p \<noteq> 0 then default p else 0)"

text \<open>\<open>Math.round(x)\<close> is the integer nearest to \<open>x\<close>, halves rounded up.\<close>

definition Math_round :: "real \<Rightarrow> real" where
  "Math_round x = of_int \<lfloor>x + 1 / 2\<rfloor>"

text \<open>The \<open>+\<close> button and the ArrowUp key.\<close>

definition increment :: "(string \<rightharpoonup> real) \<Rightarrow> param \<Rightarrow> (string \<rightharpoonup> real)" where
  "increment parameters p =
     (let currentValue = currentValue parameters p;
          newValue = min 1 (currentValue + 0.05)
      in parameters(name p \<mapsto> Math_round (newValue * 100) / 100))"

text \<open>The \<open>\<minus>\<close> button and the ArrowDown key.\<close>

definition decrement :: "(string \<rightharpoonup> real) \<Rightarrow> param \<Rightarrow> (string \<rightharpoonup> real)" where
  "decrement parameters p =
     (let currentValue = currentValue parameters p;
          newValue = max 0 (currentValue - 0.05)
      in parameters(name p \<mapsto> Math_round (newValue * 100) / 100))"

datatype control = Plus | Minus

fun press :: "param \<Rightarrow> control \<Rightarrow> (string \<rightharpoonup> real) \<Rightarrow> (string \<rightharpoonup> real)" where
  "press p Plus parameters = increment parameters p"
| "press p Minus parameters = decrement parameters p"

section \<open>CSV export (utils/exportToCSV.ts)\<close>

text \<open>
  A table cell is a JSON scalar or \<open>undefined\<close> (a column the row does not have; a
  column named like a property of \<open>Object.prototype\<close> would read that property instead,
  which is not modelled). \<open>String(value)\<close> is fixed by the language for everything but
  numbers, whose formatting is taken as a parameter \<open>fmt\<close>.
\<close>

datatype jsval = JUndefined | JNull | JBool bool | JNum number | JStr string

type_synonym row = "string \<rightharpoonup> jsval"

definition get :: "row \<Rightarrow> string \<Rightarrow> jsval" where
  "get r col = (case r col of None \<Rightarrow> JUndefined | Some v \<Rightarrow> v)"

fun String :: "(number \<Rightarrow> string) \<Rightarrow> jsval \<Rightarrow> string" where
  "String fmt JUndefined = ''undefined''"
| "String fmt JNull = ''null''"
| "String fmt (JBool b) = (if b then ''true'' else ''false'')"
| "String fmt (JNum n) = fmt n"
| "String fmt (JStr s) = s"

record DataFrameJSON =
  df_columns :: "string list"
  df_data :: "row list"

definition comma :: char where "comma = CHR 0x2C"
definition dquote :: char where "dquote = CHR 0x22"
definition newline :: char where "newline = CHR 0x0A"

text \<open>\<open>xs.join(sep)\<close> on an array of strings.\<close>

fun join :: "string \<Rightarrow> string list \<Rightarrow> string" where
  "join sep [] = []"
| "join sep [x] = x"
| "join sep (x # y # ys) = x @ sep @ join sep (y # ys)"

text \<open>\<open>s.replace(/"/g, '""')\<close>\<close>

fun double_quotes :: "string \<Rightarrow> string" where
  "double_quotes [] = []"
| "double_quotes (c # cs) = (if c = dquote then [dquote, dquote] else [c]) @ double_quotes cs"

definition csv_cell :: "(number \<Rightarrow> string) \<Rightarrow> jsval \<Rightarrow> string" where
  "csv_cell fmt v =
     (if v = JNull \<or> v = JUndefined then []
      else let stringValue = String fmt v
           in if comma \<in> set stringValue \<or> dquote \<in> set stringValue \<or> newline \<in> set stringValue
              then [dquote] @ double_quotes stringValue @ [dquote]
              else stringValue)"

definition csv_row :: "(number \<Rightarrow> string) \<Rightarrow> string list \<Rightarrow> row \<Rightarrow> string" where
  "csv_row fmt cols r = join [comma] (map (\<lambda>col. csv_cell fmt (get r col)) cols)"

definition convertToCSV :: "(number \<Rightarrow> string) \<Rightarrow> DataFrameJSON \<Rightarrow> string" where
  "convertToCSV fmt dataframe =
     (let header = join [comma] (df_columns dataframe);
          rows = map (csv_row fmt (df_columns dataframe)) (df_data dataframe)
      in join [newline] (header # rows))"

text \<open>The reader's side of the round trip, as the specification words it: a quoted
  field is unescaped by stripping the outer quotes and halving the doubled quotes; a field
  that is not quoted is read as it is.\<close>

fun halve_quotes :: "string \<Rightarrow> string" where
  "halve_quotes (c # d # cs) =
     (if c = dquote \<and> d = dquote then dquote # halve_quotes cs else c # halve_quotes (d # cs))"
| "halve_quotes cs = cs"

definition spec_unescape :: "string \<Rightarrow> string" where
  "spec_unescape f =
     (if 2 \<le> length f \<and> hd f = dquote \<and> last f = dquote
      then halve_quotes (butlast (tl f))
      else f)"

section \<open>Chart builder grouping (chartData in ChartBuilder)\<close>























section \<open>Summary rollups\<close>

text \<open>
  The client declares the type \<open>SummaryStats\<close> of a summary; the rollup that fills it
  is computed by the backend, which is not among the sources. Values are real numbers.
\<close>

datatype aggregation = Sum | Mean | Count

record SummaryStats =
  aggregation :: aggregation
  test_value :: real
  control_value :: real
  mean_difference :: real
  pct_change :: "real option"

text \<open>
  Modelled from the spec: the summary rollup of the time-series aggregator (section 4.3
  step 6 and the percent-change null policy of section 8), whose code is missing. For a
  requested aggregation kind the summary holds the scalar test value, the scalar control
  value, their absolute difference and their percent difference, the latter null when the
  control value is exactly zero.
\<close>

definition summarise :: "aggregation \<Rightarrow> real \<Rightarrow> real \<Rightarrow> SummaryStats" where
  "summarise agg test control =
     \<lparr>aggregation = agg, test_value = test, control_value = control,
      mean_difference = test - control,
      pct_change = (if control = 0 then None else Some ((test - control) / control * 100))\<rparr>"

text \<open>
  Modelled from the spec: the list of summaries of a response, missing with the backend:
  one summary per requested aggregation kind, from the scalar test and control values of
  that kind.
\<close>

definition summaries ::
  "(aggregation \<Rightarrow> real) \<Rightarrow> (aggregation \<Rightarrow> real) \<Rightarrow> aggregation list \<Rightarrow> SummaryStats list" where
  "summaries test_of control_of aggs =
     map (\<lambda>agg. summarise agg (test_of agg) (control_of agg)) aggs"

section \<open>Properties of the API client\<close>

subsection \<open>\<open>Headers.set\<close> and \<open>sessionHeaders\<close>\<close>

lemma to_ByteString_Byte: "to_ByteString (map Byte s) = Some s"
  by (induction s) simp_all

lemma set_content_type:
  "Headers_set ''Content-Type'' (map Byte ''application/json'') h = Inr (json_content_type h)"
  by (simp add: Headers_set_def normalize_value_def is_header_value_def http_whitespace_def
      http_tab_or_space_def json_content_type_def)

lemma dropWhile_id: "xs \<noteq> [] \<Longrightarrow> \<not> P (hd xs) \<Longrightarrow> dropWhile P xs = xs"
  by (cases xs) simp_all

lemma normalize_value_id:
  assumes "v \<noteq> []" "\<not> http_whitespace (hd v)" "\<not> http_whitespace (last v)"
  shows "normalize_value v = v"
proof -
  have "dropWhile http_whitespace v = v" using assms(1,2) by (rule dropWhile_id)
  moreover have "dropWhile http_whitespace (rev v) = rev v"
    using assms(1,3) by (intro dropWhile_id) (simp_all add: hd_rev)
  ultimately show ?thesis by (simp add: normalize_value_def)
qed

lemma normalize_value_last:
  assumes "normalize_value v \<noteq> []"
  shows "\<not> http_whitespace (last (normalize_value v))"
proof -
  let ?u = "dropWhile http_whitespace (rev (dropWhile http_whitespace v))"
  have "?u \<noteq> []" using assms by (simp add: normalize_value_def)
  then have "\<not> http_whitespace (hd ?u)" by (rule hd_dropWhile)
  moreover have "last (normalize_value v) = hd ?u"
    using \<open>?u \<noteq> []\<close> by (simp add: normalize_value_def last_rev)
  ultimately show ?thesis by simp
qed

lemma normalize_value_hd:
  assumes "normalize_value v \<noteq> []"
  shows "\<not> http_whitespace (hd (normalize_value v))"
proof -
  let ?t = "dropWhile http_whitespace v"
  have split: "normalize_value v @ rev (takeWhile http_whitespace (rev ?t)) = ?t"
    unfolding normalize_value_def
    by (metis rev_append rev_rev_ident takeWhile_dropWhile_id)
  then have "?t \<noteq> []" using assms by (metis append_is_Nil_conv)
  then have "\<not> http_whitespace (hd ?t)" by (rule hd_dropWhile)
  moreover have "hd ?t = hd (normalize_value v)"
    using assms hd_append2 [of "normalize_value v" "rev (takeWhile http_whitespace (rev ?t))"] split
    by simp
  ultimately show ?thesis by simp
qed

lemma is_header_value_normalize:
  "is_header_value (normalize_value v) \<longleftrightarrow>
     CHR 0x00 \<notin> set (normalize_value v) \<and> CHR 0x0A \<notin> set (normalize_value v)
     \<and> CHR 0x0D \<notin> set (normalize_value v)"
proof -
  have "\<not> http_tab_or_space (hd (normalize_value v)) \<and> \<not> http_tab_or_space (last (normalize_value v))"
    if "normalize_value v \<noteq> []"
    using normalize_value_hd [OF that] normalize_value_last [OF that]
    by (simp add: http_whitespace_def http_tab_or_space_def)
  then show ?thesis by (auto simp: is_header_value_def)
qed

lemma sessionHeaders_not_stored:
  "getSessionId st = None \<or> getSessionId st = Some [] \<Longrightarrow> sessionHeaders st = Inr Map.empty"
  by (auto simp: sessionHeaders_def)

lemma sessionHeaders_wide:
  "getSessionId st = Some s \<Longrightarrow> s \<noteq> [] \<Longrightarrow> to_ByteString s = None \<Longrightarrow>
   sessionHeaders st = Inl HeaderTypeError"
  by (simp add: sessionHeaders_def Headers_set_def)

lemma sessionHeaders_bytes:
  "getSessionId st = Some s \<Longrightarrow> s \<noteq> [] \<Longrightarrow> to_ByteString s = Some bytes \<Longrightarrow>
   sessionHeaders st =
     (if CHR 0x00 \<in> set (normalize_value bytes) \<or> CHR 0x0A \<in> set (normalize_value bytes)
         \<or> CHR 0x0D \<in> set (normalize_value bytes)
      then Inl HeaderTypeError
      else Inr [''x-session-id'' \<mapsto> normalize_value bytes])"
  by (simp add: sessionHeaders_def Headers_set_def Let_def is_header_value_normalize)

subsection \<open>What each operation sends\<close>

lemma getMeta_sent:
  "(case getMeta_request base (storage w) of
      Inl e \<Rightarrow> getMeta base net w = (Inl e, w)
    | Inr req \<Rightarrow> sent (snd (getMeta base net w)) = sent w @ [req])"
  by (simp add: getMeta_def fetch_call_def split: sum.split option.split)

lemma fetchMetrics_sent:
  "(case fetchMetrics_request base (storage w) (sf p) of
      Inl e \<Rightarrow> fetchMetrics base net sf p w = (Inl e, w)
    | Inr req \<Rightarrow> sent (snd (fetchMetrics base net sf p w)) = sent w @ [req])"
  by (simp add: fetchMetrics_def fetch_call_def split: sum.split option.split)

lemma fetchFunnel_sent:
  "(case fetchFunnel_request base (storage w) (sf p) of
      Inl e \<Rightarrow> fetchFunnel base net sf p w = (Inl e, w)
    | Inr req \<Rightarrow> sent (snd (fetchFunnel base net sf p w)) = sent w @ [req])"
  by (simp add: fetchFunnel_def fetch_call_def split: sum.split option.split)

lemma fetchCohortAggregation_sent:
  "(case fetchCohortAggregation_request base (storage w) of
      Inl e \<Rightarrow> fetchCohortAggregation base net w = (Inl e, w)
    | Inr req \<Rightarrow> sent (snd (fetchCohortAggregation base net w)) = sent w @ [req])"
  by (simp add: fetchCohortAggregation_def fetch_call_def split: sum.split option.split)

lemma runStatisticalTest_sent:
  "(case runStatisticalTest_request base (storage w) (sf p) of
      Inl e \<Rightarrow> runStatisticalTest base net sf p w = (Inl e, w)
    | Inr req \<Rightarrow> sent (snd (runStatisticalTest base net sf p w)) = sent w @ [req])"
  by (simp add: runStatisticalTest_def fetch_call_def Let_def split: sum.split option.split)

lemma clearSession_sent:
  "(case clearSession_request base (storage w) of
      Inl e \<Rightarrow> clearSession base net w = (Inl e, w)
    | Inr req \<Rightarrow> sent (snd (clearSession base net w)) = sent w @ [req])"
  by (simp add: clearSession_def fetch_call_def split: sum.split option.split)

lemma request_session_header:
  fixes rq :: "error + 'f request"
  assumes "rq \<in> {getMeta_request base st, fetchMetrics_request base st pj2,
                 fetchFunnel_request base st pj3, fetchCohortAggregation_request base st,
                 runStatisticalTest_request base st pj5, clearSession_request base st}"
  shows "(case sessionHeaders st of
            Inl e \<Rightarrow> rq = Inl e
          | Inr h \<Rightarrow> (\<exists>req. rq = Inr req \<and> headers req ''x-session-id'' = h ''x-session-id''))"
  using assms
  by (auto simp: getMeta_request_def fetchMetrics_request_def fetchFunnel_request_def
      fetchCohortAggregation_request_def runStatisticalTest_request_def clearSession_request_def
      json_content_type_def split: sum.split)

subsection \<open>Outcomes, headers and the stored session id\<close>

text \<open>
  Claim C1, as amended. When the network delivers a response that is not ok, each of
  \<open>uploadCsv\<close>, \<open>getMeta\<close>, \<open>fetchMetrics\<close>, \<open>fetchFunnel\<close>, \<open>clearSession\<close> and
  \<open>fetchCohortAggregation\<close> throws an Error whose message is the body text, and
  \<open>runStatisticalTest\<close> throws an Error whose message is the body text when that text is not
  empty and \<open>Statistical test failed\<close> when it is empty. When the response is ok and its
  body parses as JSON, every operation but \<open>clearSession\<close> returns the parsed body;
  \<open>clearSession\<close> returns nothing on an ok response. (A response is the network's answer
  to the request of the operation, so the request was built.)
\<close>

theorem api_client_outcomes:
  "(net1 (uploadCsv_request base csv) = Some r1 \<longrightarrow>
      (\<not> ok r1 \<longrightarrow> fst (uploadCsv base net1 csv w) = Inl (Error (body_text r1))) \<and>
      (ok r1 \<longrightarrow> body_json r1 = Some d1 \<longrightarrow> fst (uploadCsv base net1 csv w) = Inr d1))
   \<and> (getMeta_request base (storage w) = Inr q2 \<and> net2 q2 = Some r2 \<longrightarrow>
      (\<not> ok r2 \<longrightarrow> fst (getMeta base net2 w) = Inl (Error (body_text r2))) \<and>
      (ok r2 \<longrightarrow> body_json r2 = Some d2 \<longrightarrow> fst (getMeta base net2 w) = Inr d2))
   \<and> (fetchMetrics_request base (storage w) (sf3 p3) = Inr q3 \<and> net3 q3 = Some r3 \<longrightarrow>
      (\<not> ok r3 \<longrightarrow> fst (fetchMetrics base net3 sf3 p3 w) = Inl (Error (body_text r3))) \<and>
      (ok r3 \<longrightarrow> body_json r3 = Some d3 \<longrightarrow> fst (fetchMetrics base net3 sf3 p3 w) = Inr d3))
   \<and> (fetchFunnel_request base (storage w) (sf4 p4) = Inr q4 \<and> net4 q4 = Some r4 \<longrightarrow>
      (\<not> ok r4 \<longrightarrow> fst (fetchFunnel base net4 sf4 p4 w) = Inl (Error (body_text r4))) \<and>
      (ok r4 \<longrightarrow> body_json r4 = Some d4 \<longrightarrow> fst (fetchFunnel base net4 sf4 p4 w) = Inr d4))
   \<and> (clearSession_request base (storage w) = Inr q5 \<and> net5 q5 = Some r5 \<longrightarrow>
      (\<not> ok r5 \<longrightarrow> fst (clearSession base net5 w) = Inl (Error (body_text r5))) \<and>
      (ok r5 \<longrightarrow> fst (clearSession base net5 w) = Inr ()))
   \<and> (fetchCohortAggregation_request base (storage w) = Inr q6 \<and> net6 q6 = Some r6 \<longrightarrow>
      (\<not> ok r6 \<longrightarrow> fst (fetchCohortAggregation base net6 w) = Inl (Error (body_text r6))) \<and>
      (ok r6 \<longrightarrow> body_json r6 = Some d6 \<longrightarrow> fst (fetchCohortAggregation base net6 w) = Inr d6))
   \<and> (runStatisticalTest_request base (storage w) (sf7 p7) = Inr q7 \<and> net7 q7 = Some r7 \<longrightarrow>
      (\<not> ok r7 \<longrightarrow> body_text r7 \<noteq> [] \<longrightarrow>
         fst (runStatisticalTest base net7 sf7 p7 w) = Inl (Error (body_text r7))) \<and>
      (\<not> ok r7 \<longrightarrow> body_text r7 = [] \<longrightarrow>
         fst (runStatisticalTest base net7 sf7 p7 w) = Inl (Error ''Statistical test failed'')) \<and>
      (ok r7 \<longrightarrow> body_json r7 = Some d7 \<longrightarrow>
         fst (runStatisticalTest base net7 sf7 p7 w) = Inr d7))"
  by (simp add: uploadCsv_def getMeta_def fetchMetrics_def fetchFunnel_def clearSession_def
      fetchCohortAggregation_def runStatisticalTest_def fetch_call_def Let_def)

theorem api_client_outcomes_witness:
  "fst (uploadCsv ''h'' (\<lambda>_. Some \<lparr>ok = False, body_text = ''bad csv'', body_json = None\<rparr>) ()
          \<lparr>storage = Map.empty, sent = []\<rparr>) = Inl (Error ''bad csv'')
   \<and> fst (getMeta ''h'' (\<lambda>_. Some \<lparr>ok = True, body_text = ''7'', body_json = Some (7::nat)\<rparr>)
          \<lparr>storage = [''session_id'' \<mapsto> map Byte ''abc''], sent = ([] :: unit request list)\<rparr>)
       = Inr 7
   \<and> fst (clearSession ''h''
          (\<lambda>_. Some \<lparr>ok = True, body_text = ''{}'', body_json = Some (0::nat)\<rparr>)
          \<lparr>storage = [''session_id'' \<mapsto> map Byte ''abc''], sent = ([] :: unit request list)\<rparr>)
       = Inr ()
   \<and> fst (runStatisticalTest ''h''
          (\<lambda>_. Some \<lparr>ok = False, body_text = ''no data'', body_json = (None :: nat option)\<rparr>)
          (\<lambda>_. ''{}'') ()
          \<lparr>storage = [''session_id'' \<mapsto> map Byte ''abc''], sent = ([] :: unit request list)\<rparr>)
       = Inl (Error ''no data'')"
proof -
  let ?w = "\<lparr>storage = [''session_id'' \<mapsto> map Byte ''abc''], sent = ([] :: unit request list)\<rparr>"
  let ?h = "[''x-session-id'' \<mapsto> ''abc'']"
  have h: "sessionHeaders (storage ?w) = Inr ?h"
    by (simp add: sessionHeaders_def getSessionId_def Headers_set_def normalize_value_def
        is_header_value_def http_whitespace_def http_tab_or_space_def)
  have q2: "getMeta_request ''h'' (storage ?w)
      = (Inr \<lparr>url = ''h'' @ ''/meta'', meth = GET, headers = ?h, body = NoBody\<rparr>
          :: error + unit request)"
    by (simp only: getMeta_request_def h sum.case)
  have q5: "clearSession_request ''h'' (storage ?w)
      = (Inr \<lparr>url = ''h'' @ ''/session'', meth = DELETE, headers = ?h, body = NoBody\<rparr>
          :: error + unit request)"
    by (simp only: clearSession_request_def h sum.case)
  have q7: "runStatisticalTest_request ''h'' (storage ?w) ''{}''
      = (Inr \<lparr>url = ''h'' @ ''/statistical-test'', meth = POST, headers = json_content_type ?h,
              body = JsonBody ''{}''\<rparr> :: error + unit request)"
    by (simp only: runStatisticalTest_request_def h sum.case)
  show ?thesis
    using q2 q5 q7 api_client_outcomes
      [where ?net1.0 = "\<lambda>_. Some \<lparr>ok = False, body_text = ''bad csv'', body_json = None\<rparr>"
         and base = "''h''" and csv = "()"
         and ?r1.0 = "\<lparr>ok = False, body_text = ''bad csv'', body_json = None\<rparr>"
         and ?d1.0 = undefined
         and w = "\<lparr>storage = Map.empty, sent = []\<rparr>", THEN conjunct1]
      api_client_outcomes
      [where base = "''h''" and w = ?w
         and ?q2.0 = "\<lparr>url = ''h'' @ ''/meta'', meth = GET, headers = ?h, body = NoBody\<rparr>"
         and ?net2.0 = "\<lambda>_. Some \<lparr>ok = True, body_text = ''7'', body_json = Some (7::nat)\<rparr>"
         and ?r2.0 = "\<lparr>ok = True, body_text = ''7'', body_json = Some (7::nat)\<rparr>"
         and ?d2.0 = 7, THEN conjunct2, THEN conjunct1]
      api_client_outcomes
      [where base = "''h''" and w = ?w
         and ?q5.0 = "\<lparr>url = ''h'' @ ''/session'', meth = DELETE, headers = ?h, body = NoBody\<rparr>"
         and ?net5.0 = "\<lambda>_. Some \<lparr>ok = True, body_text = ''{}'', body_json = Some (0::nat)\<rparr>"
         and ?r5.0 = "\<lparr>ok = True, body_text = ''{}'', body_json = Some (0::nat)\<rparr>",
         THEN conjunct2, THEN conjunct2, THEN conjunct2, THEN conjunct2, THEN conjunct1]
      api_client_outcomes
      [where base = "''h''" and w = ?w
         and ?sf7.0 = "\<lambda>_. ''{}''" and ?p7.0 = "()"
         and ?q7.0 = "\<lparr>url = ''h'' @ ''/statistical-test'', meth = POST,
                        headers = json_content_type ?h, body = JsonBody ''{}''\<rparr>"
         and ?net7.0 = "\<lambda>_. Some \<lparr>ok = False, body_text = ''no data'',
                                   body_json = (None :: nat option)\<rparr>"
         and ?r7.0 = "\<lparr>ok = False, body_text = ''no data'', body_json = (None :: nat option)\<rparr>"
         and ?d7.0 = undefined,
         THEN conjunct2, THEN conjunct2, THEN conjunct2, THEN conjunct2, THEN conjunct2,
         THEN conjunct2]
    by simp
qed

text \<open>
  Claim C1 as stated fails twice: \<open>runStatisticalTest\<close> on a response that is not ok and
  has an empty body throws an Error whose message is not the (empty) body text, and
  \<open>clearSession\<close> returns no parsed body.
\<close>

theorem api_client_outcomes_counterexample:
  "fst (runStatisticalTest ''h''
          (\<lambda>_. Some \<lparr>ok = False, body_text = [], body_json = (None :: nat option)\<rparr>)
          (\<lambda>_. ''{}'') ()
          \<lparr>storage = Map.empty, sent = ([] :: unit request list)\<rparr>)
     = Inl (Error ''Statistical test failed'')
   \<and> fst (runStatisticalTest ''h''
          (\<lambda>_. Some \<lparr>ok = False, body_text = [], body_json = (None :: nat option)\<rparr>)
          (\<lambda>_. ''{}'') ()
          \<lparr>storage = Map.empty, sent = ([] :: unit request list)\<rparr>)
     \<noteq> Inl (Error (body_text \<lparr>ok = False, body_text = [], body_json = (None :: nat option)\<rparr>))"
  by (simp add: runStatisticalTest_def runStatisticalTest_request_def sessionHeaders_def
      getSessionId_def fetch_call_def Let_def)

text \<open>
  Claim C6, as amended. For each of \<open>getMeta\<close>, \<open>fetchMetrics\<close>, \<open>fetchFunnel\<close>,
  \<open>fetchCohortAggregation\<close>, \<open>runStatisticalTest\<close> and \<open>clearSession\<close>: when
  \<open>sessionHeaders\<close> returns, the call hands exactly one request to \<open>fetch\<close>, and the
  \<open>x-session-id\<close> header of that request is the one \<open>sessionHeaders\<close> made; when it
  throws, the call throws the same error, sends nothing and changes nothing. With no
  stored id, or with the empty string stored, \<open>sessionHeaders\<close> returns no header. With
  a non-empty stored id: if a code unit is above \<open>0xFF\<close>, or the id stripped of its leading
  and trailing HTTP whitespace holds a NUL, a line feed or a carriage return, it throws a
  TypeError; otherwise the header is the stored id stripped of its leading and trailing HTTP
  whitespace, which is the stored id itself when that neither starts nor ends with such
  whitespace.
\<close>

theorem session_header_of_stored_id:
  fixes w :: "'f world"
  shows
  "(case getMeta_request base (storage w) of
      Inl e \<Rightarrow> getMeta base net1 w = (Inl e, w)
    | Inr req \<Rightarrow> sent (snd (getMeta base net1 w)) = sent w @ [req])
   \<and> (case fetchMetrics_request base (storage w) (sf2 p2) of
      Inl e \<Rightarrow> fetchMetrics base net2 sf2 p2 w = (Inl e, w)
    | Inr req \<Rightarrow> sent (snd (fetchMetrics base net2 sf2 p2 w)) = sent w @ [req])
   \<and> (case fetchFunnel_request base (storage w) (sf3 p3) of
      Inl e \<Rightarrow> fetchFunnel base net3 sf3 p3 w = (Inl e, w)
    | Inr req \<Rightarrow> sent (snd (fetchFunnel base net3 sf3 p3 w)) = sent w @ [req])
   \<and> (case fetchCohortAggregation_request base (storage w) of
      Inl e \<Rightarrow> fetchCohortAggregation base net4 w = (Inl e, w)
    | Inr req \<Rightarrow> sent (snd (fetchCohortAggregation base net4 w)) = sent w @ [req])
   \<and> (case runStatisticalTest_request base (storage w) (sf5 p5) of
      Inl e \<Rightarrow> runStatisticalTest base net5 sf5 p5 w = (Inl e, w)
    | Inr req \<Rightarrow> sent (snd (runStatisticalTest base net5 sf5 p5 w)) = sent w @ [req])
   \<and> (case clearSession_request base (storage w) of
      Inl e \<Rightarrow> clearSession base net6 w = (Inl e, w)
    | Inr req \<Rightarrow> sent (snd (clearSession base net6 w)) = sent w @ [req])
   \<and> (\<forall>rq \<in> {getMeta_request base (storage w) :: error + 'f request,
               fetchMetrics_request base (storage w) (sf2 p2),
               fetchFunnel_request base (storage w) (sf3 p3),
               fetchCohortAggregation_request base (storage w),
               runStatisticalTest_request base (storage w) (sf5 p5),
               clearSession_request base (storage w)}.
         case sessionHeaders (storage w) of
           Inl e \<Rightarrow> rq = Inl e
         | Inr h \<Rightarrow> (\<exists>req. rq = Inr req \<and> headers req ''x-session-id'' = h ''x-session-id''))
   \<and> (getSessionId (storage w) = None \<or> getSessionId (storage w) = Some [] \<longrightarrow>
        sessionHeaders (storage w) = Inr Map.empty)
   \<and> (getSessionId (storage w) = Some s \<and> s \<noteq> [] \<and> to_ByteString s = None \<longrightarrow>
        sessionHeaders (storage w) = Inl HeaderTypeError)
   \<and> (getSessionId (storage w) = Some s \<and> s \<noteq> [] \<and> to_ByteString s = Some bytes \<longrightarrow>
        sessionHeaders (storage w) =
          (if CHR 0x00 \<in> set (normalize_value bytes) \<or> CHR 0x0A \<in> set (normalize_value bytes)
              \<or> CHR 0x0D \<in> set (normalize_value bytes)
           then Inl HeaderTypeError
           else Inr [''x-session-id'' \<mapsto> normalize_value bytes]))
   \<and> (bytes \<noteq> [] \<and> \<not> http_whitespace (hd bytes) \<and> \<not> http_whitespace (last bytes) \<longrightarrow>
        normalize_value bytes = bytes)
   \<and> (normalize_value bytes \<noteq> [] \<longrightarrow>
        \<not> http_whitespace (hd (normalize_value bytes))
        \<and> \<not> http_whitespace (last (normalize_value bytes)))"
proof (intro conjI)
  show "\<forall>rq \<in> {getMeta_request base (storage w) :: error + 'f request,
               fetchMetrics_request base (storage w) (sf2 p2),
               fetchFunnel_request base (storage w) (sf3 p3),
               fetchCohortAggregation_request base (storage w),
               runStatisticalTest_request base (storage w) (sf5 p5),
               clearSession_request base (storage w)}.
         case sessionHeaders (storage w) of
           Inl e \<Rightarrow> rq = Inl e
         | Inr h \<Rightarrow> (\<exists>req. rq = Inr req \<and> headers req ''x-session-id'' = h ''x-session-id'')"
    using request_session_header by blast
  show "getSessionId (storage w) = None \<or> getSessionId (storage w) = Some [] \<longrightarrow>
        sessionHeaders (storage w) = Inr Map.empty"
    using sessionHeaders_not_stored by blast
  show "getSessionId (storage w) = Some s \<and> s \<noteq> [] \<and> to_ByteString s = None \<longrightarrow>
        sessionHeaders (storage w) = Inl HeaderTypeError"
    using sessionHeaders_wide by blast
  show "getSessionId (storage w) = Some s \<and> s \<noteq> [] \<and> to_ByteString s = Some bytes \<longrightarrow>
        sessionHeaders (storage w) =
          (if CHR 0x00 \<in> set (normalize_value bytes) \<or> CHR 0x0A \<in> set (normalize_value bytes)
              \<or> CHR 0x0D \<in> set (normalize_value bytes)
           then Inl HeaderTypeError
           else Inr [''x-session-id'' \<mapsto> normalize_value bytes])"
    using sessionHeaders_bytes by blast
  show "bytes \<noteq> [] \<and> \<not> http_whitespace (hd bytes) \<and> \<not> http_whitespace (last bytes) \<longrightarrow>
        normalize_value bytes = bytes"
    using normalize_value_id by blast
  show "normalize_value bytes \<noteq> [] \<longrightarrow>
        \<not> http_whitespace (hd (normalize_value bytes))
        \<and> \<not> http_whitespace (last (normalize_value bytes))"
    using normalize_value_hd normalize_value_last by blast
qed (rule getMeta_sent fetchMetrics_sent fetchFunnel_sent fetchCohortAggregation_sent
      runStatisticalTest_sent clearSession_sent)+

lemmas header_eval =
  sessionHeaders_def getSessionId_def Headers_set_def normalize_value_def is_header_value_def
  http_whitespace_def http_tab_or_space_def

theorem session_header_of_stored_id_witness:
  "getSessionId [''session_id'' \<mapsto> map Byte ''abc''] = Some (map Byte ''abc'')
   \<and> map Byte ''abc'' \<noteq> [] \<and> to_ByteString (map Byte ''abc'') = Some ''abc''
   \<and> sessionHeaders [''session_id'' \<mapsto> map Byte ''abc''] = Inr [''x-session-id'' \<mapsto> ''abc'']
   \<and> sent (snd (getMeta ''h'' (\<lambda>_. None :: nat response option)
        \<lparr>storage = [''session_id'' \<mapsto> map Byte ''abc''], sent = ([] :: unit request list)\<rparr>))
       = [\<lparr>url = ''h/meta'', meth = GET, headers = [''x-session-id'' \<mapsto> ''abc''],
           body = NoBody\<rparr>]
   \<and> sent (snd (getMeta ''h'' (\<lambda>_. None :: nat response option)
        \<lparr>storage = Map.empty, sent = ([] :: unit request list)\<rparr>))
       = [\<lparr>url = ''h/meta'', meth = GET, headers = Map.empty, body = NoBody\<rparr>]"
  using session_header_of_stored_id
    [where w = "\<lparr>storage = [''session_id'' \<mapsto> map Byte ''abc''],
                  sent = ([] :: unit request list)\<rparr>"
       and base = "''h''" and ?net1.0 = "\<lambda>_. None :: nat response option"
       and ?sf2.0 = "\<lambda>_. ''{}''" and ?p2.0 = "()" and ?net2.0 = "\<lambda>_. None :: nat response option"
       and ?sf3.0 = "\<lambda>_. ''{}''" and ?p3.0 = "()" and ?net3.0 = "\<lambda>_. None :: nat response option"
       and ?net4.0 = "\<lambda>_. None :: nat response option"
       and ?sf5.0 = "\<lambda>_. ''{}''" and ?p5.0 = "()" and ?net5.0 = "\<lambda>_. None :: nat response option"
       and ?net6.0 = "\<lambda>_. None :: nat response option"
       and s = "map Byte ''abc''" and bytes = "''abc''"]
    session_header_of_stored_id
    [where w = "\<lparr>storage = Map.empty, sent = ([] :: unit request list)\<rparr>"
       and base = "''h''" and ?net1.0 = "\<lambda>_. None :: nat response option"
       and ?sf2.0 = "\<lambda>_. ''{}''" and ?p2.0 = "()" and ?net2.0 = "\<lambda>_. None :: nat response option"
       and ?sf3.0 = "\<lambda>_. ''{}''" and ?p3.0 = "()" and ?net3.0 = "\<lambda>_. None :: nat response option"
       and ?net4.0 = "\<lambda>_. None :: nat response option"
       and ?sf5.0 = "\<lambda>_. ''{}''" and ?p5.0 = "()" and ?net5.0 = "\<lambda>_. None :: nat response option"
       and ?net6.0 = "\<lambda>_. None :: nat response option"
       and s = "[]" and bytes = "''abc''"]
  by (simp add: header_eval getMeta_request_def)

text \<open>
  Claim C6 as stated fails in three ways. With the empty string stored, an id is
  stored and the request carries no \<open>x-session-id\<close> header. With the id \<open>abc\<close> between
  two spaces stored, the header is \<open>abc\<close>, not the stored id. With an id holding a line
  feed stored, \<open>getMeta\<close> throws a TypeError and no request is issued.
\<close>

theorem session_header_counterexample:
  "headers (last (sent (snd (getMeta ''h'' (\<lambda>_. None :: nat response option)
        \<lparr>storage = [''session_id'' \<mapsto> []], sent = ([] :: unit request list)\<rparr>))))
       ''x-session-id'' = None
   \<and> headers (last (sent (snd (getMeta ''h'' (\<lambda>_. None :: nat response option)
        \<lparr>storage = [''session_id'' \<mapsto> map Byte '' abc ''],
         sent = ([] :: unit request list)\<rparr>))))
       ''x-session-id'' = Some ''abc''
   \<and> getMeta ''h'' (\<lambda>_. None :: nat response option)
        \<lparr>storage = [''session_id'' \<mapsto> [Byte CHR ''a'', Byte CHR 0x0A, Byte CHR ''b'']],
         sent = ([] :: unit request list)\<rparr>
       = (Inl HeaderTypeError,
          \<lparr>storage = [''session_id'' \<mapsto> [Byte CHR ''a'', Byte CHR 0x0A, Byte CHR ''b'']],
           sent = []\<rparr>)"
  by (simp add: getMeta_def getMeta_request_def fetch_call_def header_eval)

text \<open>
  Claim C7. An ok upload response with a parsed body stores the returned
  \<open>session_id\<close> under the key \<open>session_id\<close>, whatever was stored before, and touches no
  other key. \<open>clearSession\<close> removes the stored id on an ok response; on a response that is
  not ok it throws the body text and the storage is what it was, and so it is when the
  network fails and when the request is not even built.
\<close>

theorem session_store_lifecycle:
  fixes w :: "'f world"
  shows
  "(net1 (uploadCsv_request base csv) = Some r1 \<longrightarrow> ok r1 \<longrightarrow> body_json r1 = Some d1 \<longrightarrow>
      storage (snd (uploadCsv base net1 csv w)) = (storage w)(''session_id'' \<mapsto> session_id d1)
      \<and> getSessionId (storage (snd (uploadCsv base net1 csv w))) = Some (session_id d1))
   \<and> (clearSession_request base (storage w) = Inr q2 \<and> net2 q2 = Some r2 \<longrightarrow> ok r2 \<longrightarrow>
      fst (clearSession base net2 w) = Inr ()
      \<and> storage (snd (clearSession base net2 w)) = (storage w)(''session_id'' := None)
      \<and> getSessionId (storage (snd (clearSession base net2 w))) = None)
   \<and> (clearSession_request base (storage w) = Inr q2 \<and> net2 q2 = Some r2 \<longrightarrow> \<not> ok r2 \<longrightarrow>
      fst (clearSession base net2 w) = Inl (Error (body_text r2))
      \<and> storage (snd (clearSession base net2 w)) = storage w)
   \<and> (clearSession_request base (storage w) = Inr q2 \<and> net2 q2 = None \<longrightarrow>
      fst (clearSession base net2 w) = Inl NetworkFailure
      \<and> storage (snd (clearSession base net2 w)) = storage w)
   \<and> ((clearSession_request base (storage w) :: error + 'f request) = Inl e \<longrightarrow>
      fst (clearSession base net2 w) = Inl e
      \<and> storage (snd (clearSession base net2 w)) = storage w)"
  by (simp add: uploadCsv_def clearSession_def fetch_call_def getSessionId_def setSessionId_def
      removeSessionId_def)

theorem session_store_lifecycle_witness:
  "storage (snd (uploadCsv ''h''
      (\<lambda>_. Some \<lparr>ok = True, body_text = ''{..}'',
                 body_json = Some \<lparr>session_id = map Byte ''s2'', num_rows = 1, columns = [],
                                   cohorts = [], date_min = None, date_max = None,
                                   metrics = []\<rparr>\<rparr>)
      () \<lparr>storage = [''session_id'' \<mapsto> map Byte ''s1''], sent = []\<rparr>)) ''session_id''
     = Some (map Byte ''s2'')
   \<and> storage (snd (clearSession ''h''
      (\<lambda>_. Some \<lparr>ok = True, body_text = ''{}'', body_json = Some (0::nat)\<rparr>)
      \<lparr>storage = [''session_id'' \<mapsto> map Byte ''s1''], sent = ([] :: unit request list)\<rparr>))
       ''session_id''
     = None
   \<and> storage (snd (clearSession ''h''
      (\<lambda>_. Some \<lparr>ok = False, body_text = ''gone'', body_json = (None :: nat option)\<rparr>)
      \<lparr>storage = [''session_id'' \<mapsto> map Byte ''s1''], sent = ([] :: unit request list)\<rparr>))
       ''session_id''
     = Some (map Byte ''s1'')
   \<and> storage (snd (clearSession ''h'' (\<lambda>_. None :: nat response option)
      \<lparr>storage = [''session_id'' \<mapsto> map Byte ''s1''], sent = ([] :: unit request list)\<rparr>))
       ''session_id''
     = Some (map Byte ''s1'')
   \<and> storage (snd (clearSession ''h'' (\<lambda>_. None :: nat response option)
      \<lparr>storage = [''session_id'' \<mapsto> [Wide 0]], sent = ([] :: unit request list)\<rparr>))
       ''session_id''
     = Some [Wide 0]"
proof -
  let ?w = "\<lparr>storage = [''session_id'' \<mapsto> map Byte ''s1''], sent = ([] :: unit request list)\<rparr>"
  let ?q = "\<lparr>url = ''h'' @ ''/session'', meth = DELETE, headers = [''x-session-id'' \<mapsto> ''s1''],
             body = NoBody\<rparr> :: unit request"
  let ?d = "\<lparr>session_id = map Byte ''s2'', num_rows = 1, columns = [], cohorts = [],
             date_min = None, date_max = None, metrics = []\<rparr>"
  have q: "clearSession_request ''h'' (storage ?w) = Inr ?q"
    by (simp add: clearSession_request_def header_eval)
  have e: "clearSession_request ''h''
      (storage \<lparr>storage = [''session_id'' \<mapsto> [Wide 0]], sent = ([] :: unit request list)\<rparr>)
      = (Inl HeaderTypeError :: error + unit request)"
    by (simp add: clearSession_request_def header_eval)
  show ?thesis
    using q e session_store_lifecycle
      [where ?net1.0 = "\<lambda>_. Some \<lparr>ok = True, body_text = ''{..}'', body_json = Some ?d\<rparr>"
         and base = "''h''" and csv = "()"
         and ?r1.0 = "\<lparr>ok = True, body_text = ''{..}'', body_json = Some ?d\<rparr>"
         and ?d1.0 = ?d and w = ?w and ?q2.0 = ?q
         and ?net2.0 = "\<lambda>_. Some \<lparr>ok = True, body_text = ''{}'', body_json = Some (0::nat)\<rparr>"
         and ?r2.0 = "\<lparr>ok = True, body_text = ''{}'', body_json = Some (0::nat)\<rparr>"]
      session_store_lifecycle
      [where base = "''h''" and w = ?w and ?q2.0 = ?q
         and ?net2.0 = "\<lambda>_. Some \<lparr>ok = False, body_text = ''gone'',
                                   body_json = (None :: nat option)\<rparr>"
         and ?r2.0 = "\<lparr>ok = False, body_text = ''gone'', body_json = (None :: nat option)\<rparr>"]
      session_store_lifecycle
      [where base = "''h''" and w = ?w and ?q2.0 = ?q
         and ?net2.0 = "\<lambda>_. None :: nat response option"]
      session_store_lifecycle
      [where base = "''h''"
         and w = "\<lparr>storage = [''session_id'' \<mapsto> [Wide 0]], sent = ([] :: unit request list)\<rparr>"
         and ?net2.0 = "\<lambda>_. None :: nat response option" and e = HeaderTypeError]
    by simp
qed

section \<open>Properties of the series extraction and the summary statistics\<close>

lemma filter_absorb_left: "filter (\<lambda>x. (P x \<or> Q x) \<and> P x) xs = filter P xs"
  by (rule filter_cong) auto

lemma filter_absorb_right: "filter (\<lambda>x. (P x \<or> Q x) \<and> Q x) xs = filter Q xs"
  by (rule filter_cong) auto

lemma filter_to_series_point:
  "map sp_value (filter (\<lambda>d. P (sp_cohort d)) (map to_series_point ps)) =
   map fvalue (filter (\<lambda>p. P (cohort p)) ps)"
  by (induction ps) (auto simp: to_series_point_def)

text \<open>
  Claim C3. For all series and labels, each of the four samples of \<open>extractData\<close> holds
  the values of exactly the points whose cohort is equal, as a string, to the test label
  (for \<open>preTest\<close>, \<open>postTest\<close>) or to the control label (for \<open>preControl\<close>,
  \<open>postControl\<close>); dropping from the input every point whose cohort equals neither label
  changes none of the four samples; and with a non-empty test (control) cohort selected in
  the filters, the label the App component passes is \<open>TEST: \<close> (\<open>CONTROL: \<close>)
  followed by that cohort, so the samples hold the funnel points with exactly that cohort
  string.
\<close>

theorem extractData_exact_equality:
  "preTest (extractData pre post t c) = map sp_value (filter (\<lambda>d. Some (sp_cohort d) = t) pre)
   \<and> postTest (extractData pre post t c) = map sp_value (filter (\<lambda>d. Some (sp_cohort d) = t) post)
   \<and> preControl (extractData pre post t c) = map sp_value (filter (\<lambda>d. Some (sp_cohort d) = c) pre)
   \<and> postControl (extractData pre post t c) = map sp_value (filter (\<lambda>d. Some (sp_cohort d) = c) post)
   \<and> extractData (filter (\<lambda>d. Some (sp_cohort d) = t \<or> Some (sp_cohort d) = c) pre)
        (filter (\<lambda>d. Some (sp_cohort d) = t \<or> Some (sp_cohort d) = c) post) t c
       = extractData pre post t c
   \<and> (test_cohort filters = Some tc \<and> tc \<noteq> [] \<longrightarrow>
        testLabel filters = Some (''TEST: '' @ tc)
        \<and> preTest (App_extractData funnel filters) =
            map fvalue (filter (\<lambda>p. cohort p = ''TEST: '' @ tc) (pre_series funnel))
        \<and> postTest (App_extractData funnel filters) =
            map fvalue (filter (\<lambda>p. cohort p = ''TEST: '' @ tc) (post_series funnel)))
   \<and> (control_cohort filters = Some cc \<and> cc \<noteq> [] \<longrightarrow>
        controlLabel filters = Some (''CONTROL: '' @ cc)
        \<and> preControl (App_extractData funnel filters) =
            map fvalue (filter (\<lambda>p. cohort p = ''CONTROL: '' @ cc) (pre_series funnel))
        \<and> postControl (App_extractData funnel filters) =
            map fvalue (filter (\<lambda>p. cohort p = ''CONTROL: '' @ cc) (post_series funnel)))"
proof -
  have neither: "extractData (filter (\<lambda>d. Some (sp_cohort d) = t \<or> Some (sp_cohort d) = c) pre)
        (filter (\<lambda>d. Some (sp_cohort d) = t \<or> Some (sp_cohort d) = c) post) t c
       = extractData pre post t c"
    by (simp add: extractData_def filter_absorb_left filter_absorb_right)
  have app: "map sp_value (filter (\<lambda>d. sp_cohort d = l) (map to_series_point ps)) =
      map fvalue (filter (\<lambda>p. cohort p = l) ps)" for l ps
    by (rule filter_to_series_point)
  show ?thesis
    using neither
    by (simp add: extractData_def App_extractData_def testLabel_def controlLabel_def app)
qed

theorem extractData_exact_equality_witness:
  "preTest (App_extractData
      \<lparr>metrics_available = [], 
       pre_series = [\<lparr>date = ''d1'', cohort = ''TEST: a'', metric = ''m'', fvalue = Num 1\<rparr>,
                     \<lparr>date = ''d1'', cohort = ''TEST: ab'', metric = ''m'', fvalue = Num 2\<rparr>,
                     \<lparr>date = ''d1'', cohort = ''CONTROL: b'', metric = ''m'', fvalue = Num 3\<rparr>],
       post_series = []\<rparr>
      \<lparr>test_cohort = Some ''a'', control_cohort = Some ''b''\<rparr>) = [Num 1]
   \<and> preControl (App_extractData
      \<lparr>metrics_available = [], 
       pre_series = [\<lparr>date = ''d1'', cohort = ''TEST: a'', metric = ''m'', fvalue = Num 1\<rparr>,
                     \<lparr>date = ''d1'', cohort = ''TEST: ab'', metric = ''m'', fvalue = Num 2\<rparr>,
                     \<lparr>date = ''d1'', cohort = ''CONTROL: b'', metric = ''m'', fvalue = Num 3\<rparr>],
       post_series = []\<rparr>
      \<lparr>test_cohort = Some ''a'', control_cohort = Some ''b''\<rparr>) = [Num 3]"
  using extractData_exact_equality
    [of "[]" "[]" None None "\<lparr>test_cohort = Some ''a'', control_cohort = Some ''b''\<rparr>" "''a''"
      "\<lparr>metrics_available = [], 
       pre_series = [\<lparr>date = ''d1'', cohort = ''TEST: a'', metric = ''m'', fvalue = Num 1\<rparr>,
                     \<lparr>date = ''d1'', cohort = ''TEST: ab'', metric = ''m'', fvalue = Num 2\<rparr>,
                     \<lparr>date = ''d1'', cohort = ''CONTROL: b'', metric = ''m'', fvalue = Num 3\<rparr>],
       post_series = []\<rparr>" "''b''"]
  by simp

lemma foldl_add_sum_list: "foldl (\<lambda>sum v. sum + f v) a xs = a + sum_list (map f xs)"
  for a :: real
  by (induction xs arbitrary: a) (simp_all add: add.assoc)

lemma floor_half: "nat \<lfloor>real n / 2\<rfloor> = n div 2"
  using floor_divide_of_nat_eq [of n 2, where ?'a = real] by simp

lemma floor_quarter: "nat \<lfloor>real n / 4\<rfloor> = n div 4"
  using floor_divide_of_nat_eq [of n 4, where ?'a = real] by simp

lemma floor_three_quarters: "nat \<lfloor>real n * 3 / 4\<rfloor> = 3 * n div 4"
proof -
  have "real n * 3 / 4 = real (3 * n) / real 4" by simp
  then have "\<lfloor>real n * 3 / 4\<rfloor> = \<lfloor>real (3 * n) / real 4\<rfloor>" by (simp only:)
  also have "\<dots> = int (3 * n div 4)" by (rule floor_divide_of_nat_eq)
  finally show ?thesis by simp
qed

text \<open>
  Claim C8. On an empty sample \<open>calculateStats\<close> returns zeros with count 0. On a
  non-empty sample of length \<open>n\<close> the mean is the sum divided by \<open>n\<close>, the median is
  the middle element of the sorted sample (the average of the two middle ones when \<open>n\<close>
  is even), \<open>p25\<close> and \<open>p75\<close> are the sorted elements at indices \<open>n div 4\<close> and
  \<open>3 n div 4\<close> (both within the array), \<open>std\<close> is the square root of the sum of squared
  deviations divided by \<open>n\<close>, and the count is \<open>n\<close>. The four rows of
  \<open>calculateSummaryStats\<close> are \<open>calculateStats\<close> of the four group samples.
\<close>

theorem calculateStats_spec:
  "(data = [] \<longrightarrow>
      calculateStats data = \<lparr>mean = 0, median = 0, p25 = 0, p75 = 0, std = 0, count = 0\<rparr>)
   \<and> (data \<noteq> [] \<longrightarrow>
      mean (calculateStats data) = sum_list data / real (length data)
      \<and> median (calculateStats data) =
          (if even (length data)
           then (sort data ! (length data div 2 - 1) + sort data ! (length data div 2)) / 2
           else sort data ! (length data div 2))
      \<and> p25 (calculateStats data) = sort data ! (length data div 4)
      \<and> length data div 4 < length data
      \<and> p75 (calculateStats data) = sort data ! (3 * length data div 4)
      \<and> 3 * length data div 4 < length data
      \<and> std (calculateStats data) =
          sqrt (sum_list (map (\<lambda>v. (v - sum_list data / real (length data))\<^sup>2) data)
                / real (length data))
      \<and> count (calculateStats data) = length data)
   \<and> map snd (calculateSummaryStats funnel m) =
       map calculateStats [test_values (pre_series funnel), test_values (post_series funnel),
                           control_values (pre_series funnel), control_values (post_series funnel)]"
proof -
  have sum: "foldl (\<lambda>sum v. sum + v) 0 data = sum_list data"
    using foldl_add_sum_list [of "\<lambda>v. v" 0 data] by simp
  have var: "foldl (\<lambda>sum v. sum + (v - k)\<^sup>2) 0 data = sum_list (map (\<lambda>v. (v - k)\<^sup>2) data)" for k
    using foldl_add_sum_list [of "\<lambda>v. (v - k)\<^sup>2" 0 data] by simp
  have bounds: "data \<noteq> [] \<Longrightarrow> length data div 4 < length data \<and> 3 * length data div 4 < length data"
    by (cases data) auto
  show ?thesis
    using bounds
    by (simp add: calculateStats_def calculateSummaryStats_def Let_def sum var floor_half
        floor_quarter floor_three_quarters even_iff_mod_2_eq_zero)
qed

theorem calculateStats_spec_witness:
  "[3, 1] \<noteq> ([] :: real list)
   \<and> mean (calculateStats [3, 1]) = 2 \<and> median (calculateStats [3, 1]) = 2
   \<and> p25 (calculateStats [3, 1]) = 1 \<and> p75 (calculateStats [3, 1]) = 3
   \<and> std (calculateStats [3, 1]) = 1 \<and> count (calculateStats [3, 1]) = 2
   \<and> calculateStats [] = \<lparr>mean = 0, median = 0, p25 = 0, p75 = 0, std = 0, count = 0\<rparr>
   \<and> test_values
        [\<lparr>date = ''d1'', cohort = ''TEST: a'', metric = ''m'', fvalue = Num 3\<rparr>,
         \<lparr>date = ''d2'', cohort = ''TEST: a'', metric = ''m'', fvalue = Num 1\<rparr>,
         \<lparr>date = ''d2'', cohort = ''TEST: a'', metric = ''m'', fvalue = NaN\<rparr>,
         \<lparr>date = ''d1'', cohort = ''CONTROL: b'', metric = ''m'', fvalue = Num 7\<rparr>] = [3, 1]"
  using calculateStats_spec [of "[3, 1]"] calculateStats_spec [of "[]"]
  by (simp add: test_values_def str_includes_def sublist_code)

section \<open>Properties of the result view\<close>

lemma row_labels:
  "fst ` set (statistic_row f) = (if is_present f then {''Test Statistic''} else {})"
  "fst ` set (p_value_row f) = (if is_present f then {''P-value''} else {})"
  "fst ` set (effect_size_row f) = (if is_present f then {''Effect Size''} else {})"
  "fst ` set (sample_size_row f) = (if is_present f then {''Required Sample Size''} else {})"
  "fst ` set (power_row f) = (if is_present f then {''Statistical Power''} else {})"
  by (cases f; simp)+

lemma ci_row_labels:
  "fst ` set (confidence_interval_row g) =
     (if \<exists>ci. g = Present ci \<and> length ci = 2 then {''95% CI''} else {})"
  by (cases g) auto

lemma is_present_iff: "is_present f \<longleftrightarrow> (\<exists>v. f = Present v)"
  by (cases f) auto

text \<open>
  Claim C4. In a \<open>StatTestResult\<close> the \<open>summary\<close> is a string that is always there,
  while \<open>statistic\<close>, \<open>p_value\<close>, \<open>effect_size\<close>, \<open>confidence_interval\<close>,
  \<open>sample_size\<close> and \<open>power\<close> may be absent or null (the record type above). The
  view shows the summary of every result, whatever the other fields hold, and shows the
  row of a numeric field exactly when that field is present and not null; the interval row
  in addition needs an array of length 2.
\<close>

theorem result_view_fields:
  "interpretation_text (render_result i r) = summary r
   \<and> map interpretation_text (render_results rs) = map summary rs
   \<and> (''Test Statistic'' \<in> fst ` set (rows (render_result i r)) \<longleftrightarrow> (\<exists>v. statistic r = Present v))
   \<and> (''P-value'' \<in> fst ` set (rows (render_result i r)) \<longleftrightarrow> (\<exists>v. p_value r = Present v))
   \<and> (''Effect Size'' \<in> fst ` set (rows (render_result i r)) \<longleftrightarrow> (\<exists>v. effect_size r = Present v))
   \<and> (''95% CI'' \<in> fst ` set (rows (render_result i r))
        \<longleftrightarrow> (\<exists>ci. confidence_interval r = Present ci \<and> length ci = 2))
   \<and> (''Required Sample Size'' \<in> fst ` set (rows (render_result i r))
        \<longleftrightarrow> (\<exists>v. sample_size r = Present v))
   \<and> (''Statistical Power'' \<in> fst ` set (rows (render_result i r))
        \<longleftrightarrow> (\<exists>v. stat_power r = Present v))"
proof -
  have rs: "map interpretation_text (render_results rs) = map summary rs"
    by (simp add: render_results_def render_result_def map_snd_enumerate
        case_prod_unfold comp_def flip: map_map [of summary snd, unfolded comp_def])
  show ?thesis
    by (simp add: rs render_result_def image_Un row_labels ci_row_labels is_present_iff)
qed

section \<open>Properties of the parameter controls\<close>

lemma Math_round_grid: "Math_round (of_int k) = of_int k"
  by (simp add: Math_round_def)

lemma Math_round_le: "x \<le> of_int n \<Longrightarrow> Math_round x \<le> of_int n"
  unfolding Math_round_def by (simp add: floor_le_iff) 

lemma Math_round_ge: "of_int n \<le> x \<Longrightarrow> of_int n \<le> Math_round x"
  unfolding Math_round_def by (simp add: le_floor_iff)

lemma round2_le_1: "x \<le> 1 \<Longrightarrow> Math_round (x * 100) / 100 \<le> 1"
  using Math_round_le [of "x * 100" 100] by simp

lemma round2_ge_0: "0 \<le> x \<Longrightarrow> 0 \<le> Math_round (x * 100) / 100"
  using Math_round_ge [of 0 "x * 100"] by simp

lemma increment_eq:
  "increment ps p (name p) = Some (Math_round (min 1 (currentValue ps p + 0.05) * 100) / 100)"
  by (simp add: increment_def Let_def)

lemma decrement_eq:
  "decrement ps p (name p) = Some (Math_round (max 0 (currentValue ps p - 0.05) * 100) / 100)"
  by (simp add: decrement_def Let_def)

lemma increment_le_1: "increment ps p (name p) = Some v \<Longrightarrow> v \<le> 1"
  unfolding increment_eq using round2_le_1 [of "min 1 (currentValue ps p + 0.05)"] by auto

lemma decrement_ge_0: "decrement ps p (name p) = Some v \<Longrightarrow> 0 \<le> v"
  unfolding decrement_eq using round2_ge_0 [of "max 0 (currentValue ps p - 0.05)"] by auto

lemma increment_ge_0: "0 \<le> currentValue ps p \<Longrightarrow> increment ps p (name p) = Some v \<Longrightarrow> 0 \<le> v"
  unfolding increment_eq using round2_ge_0 [of "min 1 (currentValue ps p + 0.05)"] by auto

lemma decrement_le_1: "currentValue ps p \<le> 1 \<Longrightarrow> decrement ps p (name p) = Some v \<Longrightarrow> v \<le> 1"
  unfolding decrement_eq using round2_le_1 [of "max 0 (currentValue ps p - 0.05)"] by auto

lemma increment_grid:
  assumes "increment ps p (name p) = Some v"
  shows "\<exists>k::int. v = of_int k / 100"
proof -
  from assms have "v = Math_round (min 1 (currentValue ps p + 0.05) * 100) / 100"
    by (simp only: increment_eq option.inject)
  then show ?thesis unfolding Math_round_def by (rule exI)
qed

lemma decrement_grid:
  assumes "decrement ps p (name p) = Some v"
  shows "\<exists>k::int. v = of_int k / 100"
proof -
  from assms have "v = Math_round (max 0 (currentValue ps p - 0.05) * 100) / 100"
    by (simp only: decrement_eq option.inject)
  then show ?thesis unfolding Math_round_def by (rule exI)
qed

lemma increment_step:
  assumes j: "currentValue ps p = of_int j / 100" and le: "currentValue ps p + 0.05 \<le> 1"
  shows "increment ps p (name p) = Some (currentValue ps p + 0.05)"
proof -
  have "min 1 (currentValue ps p + 0.05) * 100 = of_int (j + 5)" using j le by simp
  then have "Math_round (min 1 (currentValue ps p + 0.05) * 100) = of_int (j + 5)"
    by (simp only: Math_round_grid)
  moreover have "of_int (j + 5) / 100 = currentValue ps p + 0.05" using j by simp
  ultimately show ?thesis by (simp only: increment_eq)
qed

lemma decrement_step:
  assumes j: "currentValue ps p = of_int j / 100" and ge: "0 \<le> currentValue ps p - 0.05"
  shows "decrement ps p (name p) = Some (currentValue ps p - 0.05)"
proof -
  have "max 0 (currentValue ps p - 0.05) * 100 = of_int (j - 5)" using j ge by simp
  then have "Math_round (max 0 (currentValue ps p - 0.05) * 100) = of_int (j - 5)"
    by (simp only: Math_round_grid)
  moreover have "of_int (j - 5) / 100 = currentValue ps p - 0.05" using j by simp
  ultimately show ?thesis by (simp only: decrement_eq)
qed

lemma press_other: "key \<noteq> name p \<Longrightarrow> press p c ps key = ps key"
  by (cases c) (simp_all add: increment_def decrement_def Let_def)

lemma decrement_above_1:
  assumes c: "1.06 \<le> currentValue ps p" and v: "decrement ps p (name p) = Some v"
  shows "1 < v"
proof -
  have "of_int 101 \<le> max 0 (currentValue ps p - 0.05) * 100" using c by simp
  then have "of_int 101 \<le> Math_round (max 0 (currentValue ps p - 0.05) * 100)"
    by (rule Math_round_ge)
  then show "1 < v" using v by (simp add: decrement_eq)
qed

text \<open>
  Claim C10, as amended. With \<open>cur\<close> the stored value of the parameter, or its default
  when nothing or 0 is stored: the \<open>+\<close> button and ArrowUp store
  \<open>min 1 (cur + 0.05)\<close> rounded to two decimals, which is at most 1; the \<open>\<minus>\<close> button
  and ArrowDown store \<open>max 0 (cur - 0.05)\<close> rounded to two decimals, which is at least 0;
  both results are whole hundredths, lie in the interval from 0 to 1 whenever \<open>cur\<close> does,
  move by exactly 0.05 from a whole hundredth while the bound is not reached, and leave the
  other parameters alone. A decrement from \<open>cur\<close> of 1.06 or more stores a value above 1.
  For \<open>nobs1\<close> (default 50): an increment always leaves at most 1, and a decrement
  stores 49.95 when nothing, 0 or 50 is stored.
\<close>

theorem parameter_controls:
  "increment ps p (name p) = Some (Math_round (min 1 (currentValue ps p + 0.05) * 100) / 100)
   \<and> decrement ps p (name p) = Some (Math_round (max 0 (currentValue ps p - 0.05) * 100) / 100)
   \<and> (\<forall>v. increment ps p (name p) = Some v \<longrightarrow> v \<le> 1 \<and> (\<exists>k::int. v = of_int k / 100))
   \<and> (\<forall>v. decrement ps p (name p) = Some v \<longrightarrow> 0 \<le> v \<and> (\<exists>k::int. v = of_int k / 100))
   \<and> (0 \<le> currentValue ps p \<and> currentValue ps p \<le> 1 \<longrightarrow>
        (\<forall>v. press p c ps (name p) = Some v \<longrightarrow> 0 \<le> v \<and> v \<le> 1))
   \<and> (currentValue ps p = of_int j / 100 \<and> currentValue ps p + 0.05 \<le> 1 \<longrightarrow>
        increment ps p (name p) = Some (currentValue ps p + 0.05))
   \<and> (currentValue ps p = of_int j / 100 \<and> 0 \<le> currentValue ps p - 0.05 \<longrightarrow>
        decrement ps p (name p) = Some (currentValue ps p - 0.05))
   \<and> (key \<noteq> name p \<longrightarrow> press p c ps key = ps key)
   \<and> (1.06 \<le> currentValue ps p \<longrightarrow>
        (\<forall>v. decrement ps p (name p) = Some v \<longrightarrow> 1 < v))
   \<and> (\<forall>v. increment ps nobs1_param ''nobs1'' = Some v \<longrightarrow> v \<le> 1)
   \<and> (ps ''nobs1'' = None \<or> ps ''nobs1'' = Some 0 \<or> ps ''nobs1'' = Some 50 \<longrightarrow>
        decrement ps nobs1_param ''nobs1'' = Some 49.95)"
proof (intro conjI)
  show "increment ps p (name p) = Some (Math_round (min 1 (currentValue ps p + 0.05) * 100) / 100)"
    by (rule increment_eq)
  show "decrement ps p (name p) = Some (Math_round (max 0 (currentValue ps p - 0.05) * 100) / 100)"
    by (rule decrement_eq)
  show "\<forall>v. increment ps p (name p) = Some v \<longrightarrow> v \<le> 1 \<and> (\<exists>k::int. v = of_int k / 100)"
    using increment_le_1 increment_grid by blast
  show "\<forall>v. decrement ps p (name p) = Some v \<longrightarrow> 0 \<le> v \<and> (\<exists>k::int. v = of_int k / 100)"
    using decrement_ge_0 decrement_grid by blast
  show "0 \<le> currentValue ps p \<and> currentValue ps p \<le> 1 \<longrightarrow>
        (\<forall>v. press p c ps (name p) = Some v \<longrightarrow> 0 \<le> v \<and> v \<le> 1)"
  proof (cases c)
    case Plus
    then show ?thesis using increment_le_1 increment_ge_0 by auto
  next
    case Minus
    then show ?thesis using decrement_le_1 decrement_ge_0 by auto
  qed
  show "currentValue ps p = of_int j / 100 \<and> currentValue ps p + 0.05 \<le> 1 \<longrightarrow>
        increment ps p (name p) = Some (currentValue ps p + 0.05)"
    using increment_step by blast
  show "currentValue ps p = of_int j / 100 \<and> 0 \<le> currentValue ps p - 0.05 \<longrightarrow>
        decrement ps p (name p) = Some (currentValue ps p - 0.05)"
    using decrement_step by blast
  show "key \<noteq> name p \<longrightarrow> press p c ps key = ps key"
    using press_other by blast
  show "1.06 \<le> currentValue ps p \<longrightarrow> (\<forall>v. decrement ps p (name p) = Some v \<longrightarrow> 1 < v)"
    using decrement_above_1 by blast
  show "\<forall>v. increment ps nobs1_param ''nobs1'' = Some v \<longrightarrow> v \<le> 1"
    using increment_le_1 [of ps nobs1_param] by (simp add: nobs1_param_def)
  show "ps ''nobs1'' = None \<or> ps ''nobs1'' = Some 0 \<or> ps ''nobs1'' = Some 50 \<longrightarrow>
        decrement ps nobs1_param ''nobs1'' = Some 49.95"
    by (auto simp add: decrement_def currentValue_def nobs1_param_def Math_round_def Let_def)
qed

lemma decrement_nobs1:
  "decrement [''nobs1'' \<mapsto> v] nobs1_param =
     [''nobs1'' \<mapsto> Math_round (max 0 ((if v \<noteq> 0 then v else 50) - 0.05) * 100) / 100]"
  by (simp add: nobs1_param_def decrement_def currentValue_def Let_def)

lemma increment_nobs1:
  "increment [''nobs1'' \<mapsto> v] nobs1_param =
     [''nobs1'' \<mapsto> Math_round (min 1 ((if v \<noteq> 0 then v else 50) + 0.05) * 100) / 100]"
  by (simp add: nobs1_param_def increment_def currentValue_def Let_def)

theorem parameter_controls_witness:
  "increment [''nobs1'' \<mapsto> 0.5] nobs1_param ''nobs1'' = Some 0.55
   \<and> decrement [''nobs1'' \<mapsto> 0.5] nobs1_param ''nobs1'' = Some 0.45
   \<and> press nobs1_param Plus [''nobs1'' \<mapsto> 0.5] ''alpha'' = None
   \<and> decrement [''nobs1'' \<mapsto> 50] nobs1_param ''nobs1'' = Some 49.95"
  using parameter_controls [of "[''nobs1'' \<mapsto> 0.5]" nobs1_param Plus 50 "''alpha''"]
    parameter_controls [of "[''nobs1'' \<mapsto> 50]" nobs1_param Minus 5000 "''alpha''"]
  by (simp add: nobs1_param_def currentValue_def Math_round_def)

text \<open>
  Claim C10 as stated fails on \<open>nobs1\<close>. With the defaults just initialised, one press
  of \<open>\<minus>\<close> stores 49.95, which is not in the interval from 0 to 1. And after the
  parameter has been touched (one press of \<open>+\<close> stores 1, twenty presses of \<open>\<minus>\<close>
  bring it to 0), one more press of \<open>\<minus>\<close> raises the stored value from 0 to 49.95.
\<close>

theorem parameter_controls_counterexample:
  "press nobs1_param Minus (defaultParams independent_t_test_power_parameters) ''nobs1''
     = Some 49.95
   \<and> \<not> ((49.95 :: real) \<le> 1)
   \<and> fold (press nobs1_param) (Plus # replicate 20 Minus) [''nobs1'' \<mapsto> 50] ''nobs1'' = Some 0
   \<and> fold (press nobs1_param) (Plus # replicate 21 Minus) [''nobs1'' \<mapsto> 50] ''nobs1''
       = Some 49.95"
proof -
  have "press nobs1_param Minus (defaultParams independent_t_test_power_parameters) ''nobs1''
     = Some 49.95"
    by (simp add: defaultParams_def independent_t_test_power_parameters_def effect_size_param_def
        alpha_param_def nobs1_param_def decrement_def currentValue_def Math_round_def Let_def)
  moreover have
    "fold (press nobs1_param) (Plus # replicate 20 Minus) [''nobs1'' \<mapsto> 50] ''nobs1'' = Some 0"
    by (simp add: decrement_nobs1 increment_nobs1 Math_round_def numeral_eq_Suc)
  moreover have
    "fold (press nobs1_param) (Plus # replicate 21 Minus) [''nobs1'' \<mapsto> 50] ''nobs1''
       = Some 49.95"
    by (simp add: decrement_nobs1 increment_nobs1 Math_round_def numeral_eq_Suc)
  ultimately show ?thesis by simp
qed

section \<open>Properties of the CSV export\<close>

lemma halve_other: "a \<noteq> dquote \<Longrightarrow> halve_quotes (a # t) = a # halve_quotes t"
  by (cases t) auto

lemma halve_double: "halve_quotes (double_quotes s) = s"
  by (induction s) (auto simp: halve_other)

lemma no_quote_unescape: "dquote \<notin> set s \<Longrightarrow> spec_unescape s = s"
  by (cases s) (auto simp: spec_unescape_def)

lemma quoted_unescape: "spec_unescape ([dquote] @ double_quotes s @ [dquote]) = s"
  by (simp add: spec_unescape_def halve_double butlast_append)

text \<open>
  Claim C9. The output of \<open>convertToCSV\<close> is the header (the column names joined by
  commas) followed by one entry per data row, joined by newlines, each row being its cells
  in column order joined by commas. A null or undefined cell is the empty string. For any
  other cell, with \<open>s\<close> its string form: when \<open>s\<close> has a comma, a double quote or a
  newline the cell is \<open>s\<close> with every double quote doubled, between two double quotes;
  otherwise the cell is \<open>s\<close>; and unescaping the cell (strip the outer quotes and halve
  the doubled ones when it is quoted) gives back \<open>s\<close>.
\<close>

theorem convertToCSV_cells:
  "convertToCSV fmt df =
     join [newline] (join [comma] (df_columns df) # map (csv_row fmt (df_columns df)) (df_data df))
   \<and> csv_row fmt cols r = join [comma] (map (\<lambda>col. csv_cell fmt (get r col)) cols)
   \<and> csv_cell fmt JNull = [] \<and> csv_cell fmt JUndefined = []
   \<and> (v \<noteq> JNull \<and> v \<noteq> JUndefined \<longrightarrow>
        (comma \<in> set (String fmt v) \<or> dquote \<in> set (String fmt v) \<or> newline \<in> set (String fmt v)
           \<longrightarrow> csv_cell fmt v = [dquote] @ double_quotes (String fmt v) @ [dquote])
        \<and> (\<not> (comma \<in> set (String fmt v) \<or> dquote \<in> set (String fmt v)
                \<or> newline \<in> set (String fmt v))
           \<longrightarrow> csv_cell fmt v = String fmt v)
        \<and> spec_unescape (csv_cell fmt v) = String fmt v)"
  using quoted_unescape [of "String fmt v"]
  by (auto simp add: convertToCSV_def csv_row_def csv_cell_def Let_def no_quote_unescape)

theorem convertToCSV_cells_witness:
  "csv_cell (\<lambda>n. ''0'') (JStr [CHR ''a'', comma, dquote, CHR ''b''])
     = [dquote, CHR ''a'', comma, dquote, dquote, CHR ''b'', dquote]
   \<and> spec_unescape [dquote, CHR ''a'', comma, dquote, dquote, CHR ''b'', dquote]
     = [CHR ''a'', comma, dquote, CHR ''b'']
   \<and> csv_cell (\<lambda>n. ''0'') (JBool True) = ''true''
   \<and> convertToCSV (\<lambda>n. ''0'')
        \<lparr>df_columns = [''x'', ''y''],
         df_data = [[''x'' \<mapsto> JStr [CHR ''a'', comma, dquote, CHR ''b''], ''y'' \<mapsto> JNull],
                    [''x'' \<mapsto> JBool True]]\<rparr>
     = ''x,y'' @ [newline] @ [dquote, CHR ''a'', comma, dquote, dquote, CHR ''b'', dquote] @ '',''
       @ [newline] @ ''true,''"
  using convertToCSV_cells
    [of "\<lambda>n. ''0''"
        "\<lparr>df_columns = [''x'', ''y''],
         df_data = [[''x'' \<mapsto> JStr [CHR ''a'', comma, dquote, CHR ''b''], ''y'' \<mapsto> JNull],
                    [''x'' \<mapsto> JBool True]]\<rparr>"
        "[''x'', ''y'']" "[''x'' \<mapsto> JBool True]"
        "JStr [CHR ''a'', comma, dquote, CHR ''b'']"]
    convertToCSV_cells
    [of "\<lambda>n. ''0''" "\<lparr>df_columns = [], df_data = []\<rparr>"
        "[''x'', ''y'']"
        "[''x'' \<mapsto> JStr [CHR ''a'', comma, dquote, CHR ''b''], ''y'' \<mapsto> JNull]"
        "JBool True"]
  by (simp add: get_def spec_unescape_def comma_def dquote_def newline_def)

section \<open>Properties of the chart builder grouping\<close>

subsection \<open>Records of the plain mode\<close>













subsection \<open>The groups of the plain mode\<close>










subsection \<open>Records of the series mode\<close>





subsection \<open>The groups of the series mode\<close>





















section \<open>Properties of the summary rollup\<close>

text \<open>
  Claim C2. For every summary produced for a requested aggregation kind, \<open>pct_change\<close>
  is null exactly when the control value is zero, and otherwise it is the number
  \<open>(test - control) / control * 100\<close>; the rollup is a total function into summaries, so
  a zero control value gives a summary with a null \<open>pct_change\<close> and nothing else.
\<close>

theorem pct_change_null_policy:
  "(pct_change (summarise agg test control) = None \<longleftrightarrow> control = 0)
   \<and> (control \<noteq> 0 \<longrightarrow> pct_change (summarise agg test control)
                          = Some ((test - control) / control * 100))
   \<and> control_value (summarise agg test control) = control
   \<and> map aggregation (summaries test_of control_of aggs) = aggs
   \<and> (\<forall>s \<in> set (summaries test_of control_of aggs).
         pct_change s = None \<longleftrightarrow> control_value s = 0)"
  by (auto simp add: summarise_def summaries_def comp_def)

theorem pct_change_null_policy_witness:
  "summaries (\<lambda>agg. 5) (\<lambda>agg. if agg = Sum then 0 else 4) [Sum, Mean]
     = [\<lparr>aggregation = Sum, test_value = 5, control_value = 0, mean_difference = 5,
         pct_change = None\<rparr>,
        \<lparr>aggregation = Mean, test_value = 5, control_value = 4, mean_difference = 1,
         pct_change = Some 25\<rparr>]
   \<and> (4::real) \<noteq> 0
   \<and> pct_change (summarise Mean 5 4) = Some 25"
  using pct_change_null_policy
    [of Mean 5 4 "\<lambda>agg. 5" "\<lambda>agg. if agg = Sum then 0 else 4" "[Sum, Mean]"]
  by (simp add: summaries_def summarise_def)


end
